theory Spec2Isabelle
  imports Complex_Main "HOL-Library.AList"
begin

section \<open>archstats: metric transformation and the update loop\<close>

text \<open>
  A shallow embedding of \<^verbatim>\<open>archstats/archstats.py\<close>.  Python strings are modelled
  as \<^typ>\<open>string\<close> on ASCII text, where a character is one list element.
\<close>

subsection \<open>String operations of the Python runtime\<close>

text \<open>\<^verbatim>\<open>str.replace(old, new)\<close>: every non-overlapping occurrence, left to right.\<close>

function str_replace :: "string \<Rightarrow> string \<Rightarrow> string \<Rightarrow> string" where
  "str_replace old new [] = (if old = [] then new else [])"
| "str_replace old new (c # cs) =
     (if old = [] then new @ c # str_replace old new cs
      else if take (length old) (c # cs) = old
        then new @ str_replace old new (drop (length old) (c # cs))
      else c # str_replace old new cs)"
  by pat_completeness auto
termination
  by (relation "measure (\<lambda>(old, new, s). length s)") auto

text \<open>\<^verbatim>\<open>str.startswith\<close> and \<^verbatim>\<open>str.endswith\<close>.\<close>

definition startswith :: "string \<Rightarrow> string \<Rightarrow> bool" where
  "startswith s p = (take (length p) s = p)"

definition endswith :: "string \<Rightarrow> string \<Rightarrow> bool" where
  "endswith s p = (length p \<le> length s \<and> drop (length s - length p) s = p)"

text \<open>\<^verbatim>\<open>str.lower\<close> and \<^verbatim>\<open>str.upper\<close> on ASCII letters.\<close>

definition lower_char :: "char \<Rightarrow> char" where
  "lower_char c =
     (let n = (of_char c :: nat) in if 65 \<le> n \<and> n \<le> 90 then char_of (n + 32) else c)"

definition upper_char :: "char \<Rightarrow> char" where
  "upper_char c =
     (let n = (of_char c :: nat) in if 97 \<le> n \<and> n \<le> 122 then char_of (n - 32) else c)"

definition str_lower :: "string \<Rightarrow> string" where
  "str_lower s = map lower_char s"

text \<open>\<^verbatim>\<open>s.rsplit(sep, 1)\<close> for a one-character separator, unpacked into two names:
  the unpacking raises when the separator does not occur, which is \<open>None\<close> here.\<close>

definition rsplit1 :: "char \<Rightarrow> string \<Rightarrow> (string \<times> string) option" where
  "rsplit1 sep s =
     (if sep \<in> set s
      then Some (rev (drop 1 (dropWhile (\<lambda>c. c \<noteq> sep) (rev s))),
                 rev (takeWhile (\<lambda>c. c \<noteq> sep) (rev s)))
      else None)"

text \<open>\<^verbatim>\<open>s.rstrip(c)\<close> for a one-character set.\<close>

definition rstrip_char :: "char \<Rightarrow> string \<Rightarrow> string" where
  "rstrip_char c s = rev (dropWhile (\<lambda>x. x = c) (rev s))"

text \<open>\<^verbatim>\<open>s.split(' ', 1)[0]\<close>: the text before the first space.\<close>

definition split_first :: "char \<Rightarrow> string \<Rightarrow> string" where
  "split_first sep s = takeWhile (\<lambda>c. c \<noteq> sep) s"

subsection \<open>The inflection library\<close>

text \<open>
  \<^verbatim>\<open>inflection.parameterize\<close> and \<^verbatim>\<open>inflection.camelize\<close> belong to a third-party
  library.  They are modelled here as that library defines them, on ASCII input (where
  its transliteration step is the identity):
  \<^verbatim>\<open>
  string = re.sub(r"(?i)[^a-z0-9\-_]+", separator, string)
  string = re.sub(r'-{2,}', separator, string)
  string = re.sub(r"(?i)^-|-$", '', string)
  return string.lower()
  \<close>
\<close>

definition word_char :: "char \<Rightarrow> bool" where
  "word_char c =
     (let n = (of_char c :: nat) in
        (97 \<le> n \<and> n \<le> 122) \<or> (65 \<le> n \<and> n \<le> 90) \<or> (48 \<le> n \<and> n \<le> 57)
        \<or> c = CHR ''-'' \<or> c = CHR ''_'')"

text \<open>Each maximal run of unwanted characters becomes one separator.\<close>

function unwanted_to_sep :: "string \<Rightarrow> string" where
  "unwanted_to_sep [] = []"
| "unwanted_to_sep (c # cs) =
     (if word_char c then c # unwanted_to_sep cs
      else CHR ''-'' # unwanted_to_sep (dropWhile (\<lambda>x. \<not> word_char x) cs))"
  by pat_completeness auto
termination
  by (relation "measure length") (auto simp: length_dropWhile_le less_Suc_eq_le)

text \<open>No more than one separator in a row.\<close>

function squeeze_sep :: "string \<Rightarrow> string" where
  "squeeze_sep [] = []"
| "squeeze_sep (c # cs) =
     (if c = CHR ''-'' then c # squeeze_sep (dropWhile (\<lambda>x. x = CHR ''-'') cs)
      else c # squeeze_sep cs)"
  by pat_completeness auto
termination
  by (relation "measure length") (auto simp: length_dropWhile_le less_Suc_eq_le)

text \<open>Remove a leading and a trailing separator.\<close>

definition trim_sep :: "string \<Rightarrow> string" where
  "trim_sep s =
     (let t = (case s of [] \<Rightarrow> [] | c # cs \<Rightarrow> if c = CHR ''-'' then cs else s)
      in if t \<noteq> [] \<and> last t = CHR ''-'' then butlast t else t)"

definition parameterize :: "string \<Rightarrow> string" where
  "parameterize s = str_lower (trim_sep (squeeze_sep (unwanted_to_sep s)))"

text \<open>
  \<^verbatim>\<open>re.sub(r"(?:^|_)(.)", lambda m: m.group(1).upper(), string)\<close>: the first
  character, and every character following an underscore that starts a match, is
  upper-cased and the underscore dropped.  The dot does not match a newline.
\<close>

fun camelize_rest :: "string \<Rightarrow> string" where
  "camelize_rest [] = []"
| "camelize_rest [c] = [c]"
| "camelize_rest (c # d # cs) =
     (if c = CHR ''_'' \<and> d \<noteq> CHR 0x0A then upper_char d # camelize_rest cs
      else c # camelize_rest (d # cs))"

definition camelize :: "string \<Rightarrow> string" where
  "camelize s =
     (case s of [] \<Rightarrow> []
      | c # cs \<Rightarrow> if c \<noteq> CHR 0x0A then upper_char c # camelize_rest cs
                 else camelize_rest s)"

subsection \<open>\<^verbatim>\<open>key_to_pv\<close>\<close>

definition key_to_pv :: "string \<Rightarrow> string" where
  "key_to_pv key =
     (let key = str_replace ''&raquo;'' '' to '' key;
          key = str_replace ''/'' '' per '' key;
          key = str_replace ''ETL'' '' ETL '' key;
          key = (if endswith key ''rate''
                 then take (length key - 4) key @ ''Rate'' else key);
          parametrized = parameterize key
      in camelize (str_replace ''-'' ''_'' parametrized))"

text \<open>A string contains the given segments, one after another, in this order.\<close>

fun after_segment :: "string \<Rightarrow> string \<Rightarrow> string option" where
  "after_segment seg [] = (if seg = [] then Some [] else None)"
| "after_segment seg (c # cs) =
     (if take (length seg) (c # cs) = seg then Some (drop (length seg) (c # cs))
      else after_segment seg cs)"

fun segments_in_order :: "string list \<Rightarrow> string \<Rightarrow> bool" where
  "segments_in_order [] s = True"
| "segments_in_order (seg # segs) s =
     (case after_segment seg s of None \<Rightarrow> False | Some r \<Rightarrow> segments_in_order segs r)"

subsection \<open>Python values and the runtime\<close>

datatype error =
  KeyError | TypeError | ValueError | AttributeError | IndexError | OverflowError
  | SyntaxError | ConnectionError | RecursionError

text \<open>
  The values that \<^verbatim>\<open>json.loads\<close> and \<^verbatim>\<open>ast.literal_eval\<close> produce.  The carrier
  \<open>'f\<close> of Python's \<^verbatim>\<open>float\<close> is left open; a dict is the list of its items in
  insertion order, with distinct string keys, as JSON objects have them.
\<close>

datatype 'f pyval =
  PyNone | PyBool bool | PyInt int | PyFloat 'f | PyStr string
  | PyTuple "'f pyval list" | PyList "'f pyval list" | PyDict "(string \<times> 'f pyval) list"

datatype pytype = TNone | TBool | TInt | TFloat | TStr | TTuple | TList | TDict

fun type_of :: "'f pyval \<Rightarrow> pytype" where
  "type_of PyNone = TNone"
| "type_of (PyBool b) = TBool"
| "type_of (PyInt n) = TInt"
| "type_of (PyFloat x) = TFloat"
| "type_of (PyStr s) = TStr"
| "type_of (PyTuple xs) = TTuple"
| "type_of (PyList xs) = TList"
| "type_of (PyDict d) = TDict"

text \<open>
  What the embedded code takes from the standard library and the language:
  \<^verbatim>\<open>ast.literal_eval\<close> on a string (\<open>Inl\<close> when it raises), and the float
  arithmetic of \<^verbatim>\<open>value /= 1024.0\<close>, \<^verbatim>\<open>value *= 1024.0\<close>, \<^verbatim>\<open>bool(x)\<close> and the
  literal \<^verbatim>\<open>0.0\<close>.  Converting an int to a float raises \<^verbatim>\<open>OverflowError\<close> when the
  int is too large, which is \<open>None\<close>.  The interpreter bounds the depth of calls:
  \<open>spare_frames\<close> is the number of nested calls for which the stack still has room
  inside a call of \<^verbatim>\<open>archiver_literal_eval\<close> made by a transformer.
\<close>

record 'f runtime =
  literal_eval :: "string \<Rightarrow> error + 'f pyval"
  float_of_int :: "int \<Rightarrow> 'f option"
  float_truediv :: "'f \<Rightarrow> 'f \<Rightarrow> 'f"
  float_mul :: "'f \<Rightarrow> 'f \<Rightarrow> 'f"
  float_bool :: "'f \<Rightarrow> bool"
  float_1024 :: "'f"
  float_0 :: "'f"
  spare_frames :: nat

text \<open>Truth value of an object, as \<^verbatim>\<open>if value:\<close> and \<^verbatim>\<open>not data\<close> test it.\<close>

fun py_bool :: "'f runtime \<Rightarrow> 'f pyval \<Rightarrow> bool" where
  "py_bool rt PyNone = False"
| "py_bool rt (PyBool b) = b"
| "py_bool rt (PyInt n) = (n \<noteq> 0)"
| "py_bool rt (PyFloat x) = float_bool rt x"
| "py_bool rt (PyStr s) = (s \<noteq> [])"
| "py_bool rt (PyTuple xs) = (xs \<noteq> [])"
| "py_bool rt (PyList xs) = (xs \<noteq> [])"
| "py_bool rt (PyDict d) = (d \<noteq> [])"

text \<open>\<^verbatim>\<open>value / c\<close> and \<^verbatim>\<open>value * c\<close> for a float \<open>c\<close>: defined on bool, int and
  float; any other left operand raises \<^verbatim>\<open>TypeError\<close>.\<close>

fun as_float :: "'f runtime \<Rightarrow> 'f pyval \<Rightarrow> error + 'f" where
  "as_float rt (PyBool b) =
     (case float_of_int rt (if b then 1 else 0) of None \<Rightarrow> Inl OverflowError
      | Some x \<Rightarrow> Inr x)"
| "as_float rt (PyInt n) =
     (case float_of_int rt n of None \<Rightarrow> Inl OverflowError | Some x \<Rightarrow> Inr x)"
| "as_float rt (PyFloat x) = Inr x"
| "as_float rt v = Inl TypeError"

definition py_truediv :: "'f runtime \<Rightarrow> 'f pyval \<Rightarrow> 'f \<Rightarrow> error + 'f pyval" where
  "py_truediv rt v c =
     (case as_float rt v of Inl e \<Rightarrow> Inl e
      | Inr x \<Rightarrow> Inr (PyFloat (float_truediv rt x c)))"

definition py_mul :: "'f runtime \<Rightarrow> 'f pyval \<Rightarrow> 'f \<Rightarrow> error + 'f pyval" where
  "py_mul rt v c =
     (case as_float rt v of Inl e \<Rightarrow> Inl e
      | Inr x \<Rightarrow> Inr (PyFloat (float_mul rt x c)))"

text \<open>\<^verbatim>\<open>obj[key]\<close> with a string key: a dict lookup; every other object in this
  model raises \<^verbatim>\<open>TypeError\<close>.\<close>

fun getitem_str :: "'f pyval \<Rightarrow> string \<Rightarrow> error + 'f pyval" where
  "getitem_str (PyDict d) k = (case map_of d k of None \<Rightarrow> Inl KeyError | Some v \<Rightarrow> Inr v)"
| "getitem_str v k = Inl TypeError"

text \<open>\<^verbatim>\<open>obj[i]\<close> with an int index; a negative index counts from the end.\<close>

definition seq_index :: "'a list \<Rightarrow> int \<Rightarrow> error + 'a" where
  "seq_index xs i =
     (if 0 \<le> i \<and> i < int (length xs) then Inr (xs ! nat i)
      else if i < 0 \<and> - int (length xs) \<le> i then Inr (xs ! nat (int (length xs) + i))
      else Inl IndexError)"

fun getitem_int :: "'f pyval \<Rightarrow> int \<Rightarrow> error + 'f pyval" where
  "getitem_int (PyList xs) i = seq_index xs i"
| "getitem_int (PyTuple xs) i = seq_index xs i"
| "getitem_int (PyStr s) i =
     (case seq_index s i of Inl e \<Rightarrow> Inl e | Inr c \<Rightarrow> Inr (PyStr [c]))"
| "getitem_int (PyDict d) i = Inl KeyError"
| "getitem_int v i = Inl TypeError"

text \<open>\<^verbatim>\<open>for item in obj\<close>: the elements of a list or tuple, the keys of a dict, the
  characters of a string.\<close>

fun py_iter :: "'f pyval \<Rightarrow> error + 'f pyval list" where
  "py_iter (PyList xs) = Inr xs"
| "py_iter (PyTuple xs) = Inr xs"
| "py_iter (PyDict d) = Inr (map (\<lambda>(k, v). PyStr k) d)"
| "py_iter (PyStr s) = Inr (map (\<lambda>c. PyStr [c]) s)"
| "py_iter v = Inl TypeError"

text \<open>\<^verbatim>\<open>obj.items()\<close>.\<close>

fun py_items :: "'f pyval \<Rightarrow> error + (string \<times> 'f pyval) list" where
  "py_items (PyDict d) = Inr d"
| "py_items v = Inl AttributeError"

subsection \<open>Results: returned, raised, or not returning\<close>

text \<open>\<open>Some (Inr x)\<close> returns \<open>x\<close> and \<open>Some (Inl e)\<close> raises \<open>e\<close>; \<open>None\<close> is a call
  that does neither, which no function below produces.\<close>

type_synonym 'a result = "(error + 'a) option"

definition returns :: "'a \<Rightarrow> 'a result" where
  "returns x = Some (Inr x)"

definition raises :: "error \<Rightarrow> 'a result" where
  "raises e = Some (Inl e)"

definition bind_result :: "'a result \<Rightarrow> ('a \<Rightarrow> 'b result) \<Rightarrow> 'b result" where
  "bind_result m f =
     (case m of None \<Rightarrow> None | Some (Inl e) \<Rightarrow> Some (Inl e) | Some (Inr x) \<Rightarrow> f x)"

text \<open>A list comprehension: the elements are built left to right and the first
  exception ends it.\<close>

fun comprehension :: "('a \<Rightarrow> 'b result) \<Rightarrow> 'a list \<Rightarrow> 'b list result" where
  "comprehension f [] = returns []"
| "comprehension f (x # xs) =
     bind_result (f x) (\<lambda>y. bind_result (comprehension f xs) (\<lambda>ys. returns (y # ys)))"

subsection \<open>\<^verbatim>\<open>archiver_literal_eval\<close>\<close>

text \<open>
  \<^verbatim>\<open>ast.literal_eval\<close> as the coercer calls it, with room for \<open>frames\<close> nested
  calls: without room the call raises \<^verbatim>\<open>RecursionError\<close>; on an argument that is
  neither a string nor a syntax tree it raises \<^verbatim>\<open>ValueError\<close>.
\<close>

definition ast_literal_eval :: "nat \<Rightarrow> 'f runtime \<Rightarrow> 'f pyval \<Rightarrow> error + 'f pyval" where
  "ast_literal_eval frames rt v =
     (if frames = 0 then Inl RecursionError
      else (case v of PyStr s \<Rightarrow> literal_eval rt s | _ \<Rightarrow> Inl ValueError))"

text \<open>
  The coercer with room for \<open>frames\<close> nested calls, its own included.  The recursion
  has no bound in the source; the interpreter's bound ends it.  Every exception of
  \<^verbatim>\<open>ast.literal_eval\<close>, \<^verbatim>\<open>RecursionError\<close> too, is caught by \<^verbatim>\<open>except Exception\<close>;
  the recursive call is outside the \<^verbatim>\<open>try\<close>.
\<close>

fun archiver_literal_eval_frames ::
  "nat \<Rightarrow> 'f runtime \<Rightarrow> 'f pyval \<Rightarrow> error + 'f pyval" where
  "archiver_literal_eval_frames 0 rt v = Inl RecursionError"
| "archiver_literal_eval_frames (Suc frames) rt v =
     (case ast_literal_eval frames rt v of
        Inl e \<Rightarrow> Inr v
      | Inr evaluated \<Rightarrow>
          if type_of evaluated = TTuple
          then (case v of
                  PyStr s \<Rightarrow> archiver_literal_eval_frames frames rt (PyStr (str_replace '','' [] s))
                | _ \<Rightarrow> Inl AttributeError)
          else Inr evaluated)"

definition archiver_literal_eval :: "'f runtime \<Rightarrow> 'f pyval \<Rightarrow> error + 'f pyval" where
  "archiver_literal_eval rt v = archiver_literal_eval_frames (Suc (spare_frames rt)) rt v"

subsection \<open>\<^verbatim>\<open>_value_to_pvproperty_kwargs\<close>\<close>

record pv_kwargs =
  doc :: string
  record_type :: string
  report_as_string :: "bool option"
  max_length :: "int option"

text \<open>The dict literal indexed by \<^verbatim>\<open>type(value)\<close>.\<close>

definition record_table :: "(pytype \<times> string) list" where
  "record_table = [(TBool, ''bi''), (TFloat, ''ai''), (TInt, ''longin''), (TStr, ''stringin'')]"

definition value_to_pvproperty_kwargs ::
  "'f runtime \<Rightarrow> string \<Rightarrow> 'f pyval \<Rightarrow> ('f pyval \<times> pv_kwargs) result" where
  "value_to_pvproperty_kwargs rt key v0 =
     (case archiver_literal_eval rt v0 of
        Inl e \<Rightarrow> raises e
      | Inr v \<Rightarrow>
          (case map_of record_table (type_of v) of
             None \<Rightarrow> raises KeyError
           | Some r \<Rightarrow>
               let kwargs = \<lparr>doc = key, record_type = r,
                             report_as_string = None, max_length = None\<rparr>;
                   kwargs = (if type_of v = TStr
                             then kwargs\<lparr>report_as_string := Some True,
                                         max_length := Some 2000\<rparr>
                             else kwargs)
               in returns (v, kwargs)))"

text \<open>One emitted field: \<^verbatim>\<open>name\<close>, \<^verbatim>\<open>value\<close> and, where the transformer gives
  them, \<^verbatim>\<open>kwargs\<close>.\<close>

record 'f field =
  name :: string
  val :: "'f pyval"
  kwargs :: "pv_kwargs option"

definition make_field :: "string \<Rightarrow> ('f pyval \<times> pv_kwargs) \<Rightarrow> 'f field" where
  "make_field n vk = \<lparr>name = n, val = fst vk, kwargs = Some (snd vk)\<rparr>"

subsection \<open>The transformers\<close>

text \<open>
  Each transformer starts with \<^verbatim>\<open>json.loads(metrics_string)\<close>; the model starts from
  the value that call returns.  A body that \<^verbatim>\<open>json.loads\<close> rejects raises before any
  field is built.
\<close>

text \<open>\<^verbatim>\<open>d[key] + ':' + tail\<close>: the lookup, then string concatenation, which raises
  \<^verbatim>\<open>TypeError\<close> when the left operand is not a string.\<close>

definition prefixed_name :: "'f pyval \<Rightarrow> string \<Rightarrow> string \<Rightarrow> error + string" where
  "prefixed_name d key tail =
     (case getitem_str d key of
        Inl e \<Rightarrow> Inl e
      | Inr (PyStr p) \<Rightarrow> Inr (p @ '':'' @ tail)
      | Inr _ \<Rightarrow> Inl TypeError)"

definition to_instance_pv :: "'f pyval \<Rightarrow> string \<Rightarrow> error + string" where
  "to_instance_pv instance_dict key = prefixed_name instance_dict ''instance'' (key_to_pv key)"

definition instance_metrics_to_pvproperties ::
  "'f runtime \<Rightarrow> 'f pyval \<Rightarrow> 'f field list result" where
  "instance_metrics_to_pvproperties rt loaded =
     bind_result (Some (py_iter loaded)) (\<lambda>dicts.
     bind_result
       (comprehension (\<lambda>instance_dict.
          bind_result (Some (py_items instance_dict)) (\<lambda>items.
            comprehension (\<lambda>(key, v).
              bind_result (Some (to_instance_pv instance_dict key)) (\<lambda>n.
              bind_result (value_to_pvproperty_kwargs rt key v) (\<lambda>vk.
              returns (make_field n vk)))) items)) dicts)
       (\<lambda>fss. returns (concat fss)))"

definition to_storage_pv :: "'f pyval \<Rightarrow> string \<Rightarrow> error + string" where
  "to_storage_pv storage_dict key = prefixed_name storage_dict ''name'' (camelize key)"

definition storage_metrics_to_pvproperties ::
  "'f runtime \<Rightarrow> 'f pyval \<Rightarrow> 'f field list result" where
  "storage_metrics_to_pvproperties rt loaded =
     bind_result (Some (py_iter loaded)) (\<lambda>dicts.
     bind_result
       (comprehension (\<lambda>storage_dict.
          bind_result (Some (py_items storage_dict)) (\<lambda>items.
            comprehension (\<lambda>(key, v).
              bind_result (Some (to_storage_pv storage_dict key)) (\<lambda>n.
              bind_result (value_to_pvproperty_kwargs rt key v) (\<lambda>vk.
              returns (make_field n vk))))
              (filter (\<lambda>(key, v). key \<noteq> ''name'') items))) dicts)
       (\<lambda>fss. returns (concat fss)))"

text \<open>\<^verbatim>\<open>item[key] = v\<close> on a dict: the key keeps its place when it is there already.\<close>

fun setitem_str :: "'f pyval \<Rightarrow> string \<Rightarrow> 'f pyval \<Rightarrow> error + 'f pyval" where
  "setitem_str (PyDict d) k v = Inr (PyDict (AList.update k v d))"
| "setitem_str x k v = Inl TypeError"

text \<open>The unit adjustment inside \<^verbatim>\<open>if value:\<close>.\<close>

definition to_megabytes :: "'f runtime \<Rightarrow> string \<Rightarrow> 'f pyval \<Rightarrow> error + 'f pyval" where
  "to_megabytes rt units v =
     (if units = ''KB'' then py_truediv rt v (float_1024 rt)
      else if units = ''MB'' then Inr v
      else if units = ''GB'' then py_mul rt v (float_1024 rt)
      else Inr v)"

text \<open>The body of the loop of \<^verbatim>\<open>load_and_filter\<close>, up to the item it yields.\<close>

definition load_and_filter_item :: "'f runtime \<Rightarrow> 'f pyval \<Rightarrow> 'f pyval result" where
  "load_and_filter_item rt item =
     bind_result (Some (getitem_str item ''name'')) (\<lambda>name_obj.
       case name_obj of
         PyStr nm \<Rightarrow>
           if startswith nm ''Estimated bytes transferred in ETL'' then
             bind_result (Some (getitem_str item ''value'')) (\<lambda>raw.
             bind_result (Some (archiver_literal_eval rt raw)) (\<lambda>v.
               case rsplit1 CHR ''('' nm of
                 None \<Rightarrow> raises ValueError
               | Some (unitless_name, units) \<Rightarrow>
                   let units = rstrip_char CHR '')'' units in
                   bind_result
                     (if py_bool rt v then Some (to_megabytes rt units v) else returns v)
                     (\<lambda>v.
                   bind_result
                     (Some (setitem_str item ''name'' (PyStr (unitless_name @ ''(MB)''))))
                     (\<lambda>item.
                   Some (setitem_str item ''value'' v)))))
           else returns item
       | _ \<Rightarrow> raises AttributeError)"

text \<open>The element expression of the comprehension over the yielded items.\<close>

definition detailed_field :: "'f runtime \<Rightarrow> 'f pyval \<Rightarrow> 'f field result" where
  "detailed_field rt item =
     bind_result (Some (getitem_str item ''name'')) (\<lambda>name_obj.
       case name_obj of
         PyStr nm \<Rightarrow>
           bind_result (Some (getitem_str item ''value'')) (\<lambda>v.
           bind_result (value_to_pvproperty_kwargs rt nm v) (\<lambda>vk.
           returns (make_field (key_to_pv nm) vk)))
       | _ \<Rightarrow> raises AttributeError)"

text \<open>One item through the generator and then through the comprehension.\<close>

definition detailed_item :: "'f runtime \<Rightarrow> 'f pyval \<Rightarrow> 'f field result" where
  "detailed_item rt item = bind_result (load_and_filter_item rt item) (detailed_field rt)"

definition detailed_metrics_to_pvproperties ::
  "'f runtime \<Rightarrow> string \<Rightarrow> 'f pyval \<Rightarrow> 'f field list result" where
  "detailed_metrics_to_pvproperties rt inst loaded =
     bind_result (Some (py_iter loaded)) (\<lambda>items. comprehension (detailed_item rt) items)"

definition get_value :: "'f runtime \<Rightarrow> 'f pyval \<Rightarrow> 'f pyval" where
  "get_value rt data =
     (if \<not> py_bool rt data then PyInt 0
      else (case getitem_int data (- 1) of
              Inl e \<Rightarrow> PyFloat (float_0 rt)
            | Inr pair \<Rightarrow>
                (case getitem_int pair 1 of
                   Inl e \<Rightarrow> PyFloat (float_0 rt)
                 | Inr v \<Rightarrow> v)))"

text \<open>\<^verbatim>\<open>to_process_info(**metrics_dict)\<close>: the argument must be a mapping; \<^verbatim>\<open>label\<close>
  and \<^verbatim>\<open>data\<close> take their defaults when the keys are absent; \<^verbatim>\<open>label.split\<close>
  needs a string.\<close>

definition to_process_info :: "'f runtime \<Rightarrow> 'f pyval \<Rightarrow> error + 'f field" where
  "to_process_info rt metrics_dict =
     (case metrics_dict of
        PyDict d \<Rightarrow>
          (let label = (case map_of d ''label'' of None \<Rightarrow> PyStr ''unknown'' | Some l \<Rightarrow> l);
               data = (case map_of d ''data'' of None \<Rightarrow> PyNone | Some x \<Rightarrow> x)
           in case label of
                PyStr l \<Rightarrow>
                  Inr \<lparr>name = camelize (split_first CHR '' '' l),
                       val = get_value rt data, kwargs = None\<rparr>
              | _ \<Rightarrow> Inl AttributeError)
      | _ \<Rightarrow> Inl TypeError)"

definition process_metrics_to_pvproperties ::
  "'f runtime \<Rightarrow> 'f pyval \<Rightarrow> 'f field list result" where
  "process_metrics_to_pvproperties rt loaded =
     bind_result (Some (py_iter loaded)) (\<lambda>dicts.
       comprehension (\<lambda>metrics_dict. Some (to_process_info rt metrics_dict)) dicts)"

subsection \<open>A runtime for examples\<close>

text \<open>
  The results of \<^verbatim>\<open>ast.literal_eval\<close> on the strings used in the examples below,
  exact rational arithmetic standing for floats, which agrees with double precision
  on the small numbers of these examples, and room for a thousand nested calls.  No
  statement about an arbitrary runtime depends on it.
\<close>

definition sample_literals :: "(string \<times> (error + rat pyval)) list" where
  "sample_literals =
     [(''2048'', Inr (PyInt 2048)),
      (''2'', Inr (PyInt 2)),
      (''5'', Inr (PyInt 5)),
      (''0'', Inr (PyInt 0)),
      (''7'', Inr (PyInt 7)),
      (''None'', Inr PyNone),
      (''[1, 2]'', Inr (PyList [PyInt 1, PyInt 2])),
      (''160,732'', Inr (PyTuple [PyInt 160, PyInt 732])),
      (''160732'', Inr (PyInt 160732)),
      (''1, 2'', Inr (PyTuple [PyInt 1, PyInt 2])),
      (''1 2'', Inl SyntaxError),
      (''1,024'', Inl SyntaxError),
      (''1024'', Inr (PyInt 1024)),
      (''()'', Inr (PyTuple [])),
      ('''', Inl SyntaxError),
      (''ok'', Inl ValueError),
      (''appliance0'', Inl ValueError)]"

definition sample_runtime :: "rat runtime" where
  "sample_runtime =
     \<lparr>literal_eval = (\<lambda>s. case map_of sample_literals s of
                               None \<Rightarrow> Inl ValueError | Some r \<Rightarrow> r),
      float_of_int = (\<lambda>n. Some (of_int n)),
      float_truediv = (\<lambda>x y. x / y),
      float_mul = (\<lambda>x y. x * y),
      float_bool = (\<lambda>x. x \<noteq> 0),
      float_1024 = 1024,
      float_0 = 0,
      spare_frames = 1000\<rparr>"

subsection \<open>The coercer as the specification words it\<close>

text \<open>
  Written from the specification, for comparison with \<open>archiver_literal_eval\<close>: parse
  the raw text; when that fails or gives a tuple, remove every comma and parse once
  more; when that fails or gives a tuple again, the value is the original raw text.
\<close>

definition usable_literal :: "error + 'f pyval \<Rightarrow> 'f pyval option" where
  "usable_literal r =
     (case r of Inl e \<Rightarrow> None
      | Inr ev \<Rightarrow> if type_of ev = TTuple then None else Some ev)"

definition coerce_as_specified :: "'f runtime \<Rightarrow> string \<Rightarrow> 'f pyval" where
  "coerce_as_specified rt raw =
     (case usable_literal (literal_eval rt raw) of
        Some ev \<Rightarrow> ev
      | None \<Rightarrow>
          (case usable_literal (literal_eval rt (str_replace '','' [] raw)) of
             Some ev \<Rightarrow> ev
           | None \<Rightarrow> PyStr raw))"

subsection \<open>Groups and the update loop\<close>

text \<open>
  What \<^verbatim>\<open>_update_group\<close> and \<^verbatim>\<open>updater\<close> call outside this file: \<^verbatim>\<open>Request.make\<close>
  (the fetch and its transformer), the comparison \<^verbatim>\<open>prop.value != v\<close> and
  \<^verbatim>\<open>prop.write\<close> of the hosted property, and \<^verbatim>\<open>db_helper.store\<close>.  Each may raise.
  A request is named by its URL; \<open>'p\<close> is the state of a hosted property.  A write
  that raises is taken to leave the property as it was.
\<close>

record ('f, 'p) host =
  request_make :: "string \<Rightarrow> error + 'f field list"
  prop_differs :: "'p \<Rightarrow> 'f pyval \<Rightarrow> error + bool"
  prop_write :: "'p \<Rightarrow> 'f pyval \<Rightarrow> error + 'p"
  db_store :: "(string \<rightharpoonup> 'p) \<Rightarrow> error option"

text \<open>What a group's tick does to the outside: log records, writes and stores.\<close>

datatype 'f event =
  SawNewEntry "'f field"
  | FailedToUpdate string "'f field"
  | Wrote string "'f pyval"
  | Stored

text \<open>
  A dynamic group: its requests, the map from field names to attribute names built at
  start-up, the attributes themselves, its initial document, and its entry in
  \<^verbatim>\<open>self._document_count\<close>.
\<close>

record ('f, 'p) group =
  requests :: "string list"
  key_to_attr_map :: "string \<rightharpoonup> string"
  attrs :: "string \<rightharpoonup> 'p"
  init_document :: "'f pyval option"
  document_count :: nat
  trace :: "'f event list"

text \<open>
  The outcome of a step that may raise part-way: the state reached, and the exception
  that leaves the step, if any.
\<close>

type_synonym 's outcome = "'s \<times> error option"

text \<open>The body of the loop over the items of one response.\<close>

definition update_item ::
  "('f, 'p) host \<Rightarrow> 'f field \<Rightarrow> ('f, 'p) group \<times> bool \<Rightarrow> (('f, 'p) group \<times> bool) outcome" where
  "update_item h item gc =
     (let g = fst gc; changed = snd gc in
      case key_to_attr_map g (name item) of
        None \<Rightarrow> ((g\<lparr>trace := trace g @ [SawNewEntry item]\<rparr>, changed), None)
      | Some attr \<Rightarrow>
          (case attrs g attr of
             None \<Rightarrow> ((g, changed), Some AttributeError)
           | Some prop \<Rightarrow>
               (case prop_differs h prop (val item) of
                  Inl e \<Rightarrow> ((g\<lparr>trace := trace g @ [FailedToUpdate attr item]\<rparr>, changed), None)
                | Inr False \<Rightarrow> ((g, changed), None)
                | Inr True \<Rightarrow>
                    (case prop_write h prop (val item) of
                       Inl e \<Rightarrow>
                         ((g\<lparr>trace := trace g @ [FailedToUpdate attr item]\<rparr>, changed), None)
                     | Inr prop' \<Rightarrow>
                         ((g\<lparr>attrs := (attrs g)(attr \<mapsto> prop'),
                             trace := trace g @ [Wrote attr (val item)]\<rparr>, True), None)))))"

fun update_items ::
  "('f, 'p) host \<Rightarrow> 'f field list \<Rightarrow> ('f, 'p) group \<times> bool \<Rightarrow> (('f, 'p) group \<times> bool) outcome"
  where
  "update_items h [] gc = (gc, None)"
| "update_items h (item # items) gc =
     (case update_item h item gc of
        (gc', Some e) \<Rightarrow> (gc', Some e)
      | (gc', None) \<Rightarrow> update_items h items gc')"

text \<open>The loop over \<^verbatim>\<open>group.requests\<close>; \<^verbatim>\<open>request.make()\<close> may raise.\<close>

fun update_requests ::
  "('f, 'p) host \<Rightarrow> string list \<Rightarrow> ('f, 'p) group \<times> bool \<Rightarrow> (('f, 'p) group \<times> bool) outcome"
  where
  "update_requests h [] gc = (gc, None)"
| "update_requests h (request # rest) gc =
     (case request_make h request of
        Inl e \<Rightarrow> (gc, Some e)
      | Inr items \<Rightarrow>
          (case update_items h items gc of
             (gc', Some e) \<Rightarrow> (gc', Some e)
           | (gc', None) \<Rightarrow> update_requests h rest gc'))"

definition update_group :: "('f, 'p) host \<Rightarrow> ('f, 'p) group \<Rightarrow> ('f, 'p) group outcome" where
  "update_group h g =
     (case update_requests h (requests g) (g, False) of
        ((g', changed), Some e) \<Rightarrow> (g', Some e)
      | ((g', changed), None) \<Rightarrow>
          (let first_document = (document_count g' = 0) in
           if changed \<or> (first_document \<and> init_document g' = None) then
             (case db_store h (attrs g') of
                Some e \<Rightarrow> (g', Some e)
              | None \<Rightarrow>
                  (g'\<lparr>trace := trace g' @ [Stored],
                      document_count := document_count g' + 1\<rparr>, None))
           else (g', None)))"

text \<open>How many snapshots a group has stored, and how many writes it has made.\<close>

definition stores :: "('f, 'p) group \<Rightarrow> nat" where
  "stores g = length (filter (\<lambda>ev. ev = Stored) (trace g))"

definition writes :: "('f, 'p) group \<Rightarrow> nat" where
  "writes g = length (filter (\<lambda>ev. case ev of Wrote a v \<Rightarrow> True | _ \<Rightarrow> False) (trace g))"

text \<open>
  The \<^verbatim>\<open>updater\<close> start-up hook.  Its log records the sleeps and the exception it
  catches; seconds are rationals.
\<close>

datatype sweep_event = Sleep rat | UpdateFailed error

definition update_rate :: rat where
  "update_rate = 60"

text \<open>The \<^verbatim>\<open>for\<close> loop inside the \<^verbatim>\<open>try\<close>.\<close>

fun update_groups ::
  "('f, 'p) host \<Rightarrow> ('f, 'p) group list \<Rightarrow> sweep_event list
     \<Rightarrow> (('f, 'p) group list \<times> sweep_event list) outcome" where
  "update_groups h [] evs = (([], evs), None)"
| "update_groups h (g # gs) evs =
     (case update_group h g of
        (g', Some e) \<Rightarrow> ((g' # gs, evs), Some e)
      | (g', None) \<Rightarrow>
          (case update_groups h gs (evs @ [Sleep (1 / 10)]) of
             ((gs', evs'), r) \<Rightarrow> ((g' # gs', evs'), r)))"

text \<open>One pass of the body of \<^verbatim>\<open>while True\<close>: the \<^verbatim>\<open>try\<close>, its handler, the sleep.\<close>

definition updater_pass ::
  "('f, 'p) host \<Rightarrow> ('f, 'p) group list \<times> sweep_event list
     \<Rightarrow> ('f, 'p) group list \<times> sweep_event list" where
  "updater_pass h st =
     (case update_groups h (fst st) (snd st) of
        ((gs', evs'), Some e) \<Rightarrow> (gs', evs' @ [UpdateFailed e, Sleep 10, Sleep update_rate])
      | ((gs', evs'), None) \<Rightarrow> (gs', evs' @ [Sleep update_rate]))"

text \<open>
  The loop never leaves by itself; its first passes, one host per pass (what the
  appliance and the attribute host answer at that time).
\<close>

fun updater ::
  "('f, 'p) host list \<Rightarrow> ('f, 'p) group list \<times> sweep_event list
     \<Rightarrow> ('f, 'p) group list \<times> sweep_event list" where
  "updater [] st = st"
| "updater (h # hs) st = updater hs (updater_pass h st)"

subsection \<open>A host for examples\<close>

text \<open>
  A property is its value; comparison is equality of values, a write stores the value,
  the store succeeds.  The appliance answers one field for the URL \<^verbatim>\<open>metrics\<close>; the
  URL \<^verbatim>\<open>down\<close> cannot be fetched.
\<close>

definition sample_host :: "(rat, rat pyval) host" where
  "sample_host =
     \<lparr>request_make = (\<lambda>url.
        if url = ''metrics''
        then Inr [\<lparr>name = ''PvCount'', val = PyInt 7, kwargs = None\<rparr>]
        else if url = ''extra''
        then Inr [\<lparr>name = ''Unseen'', val = PyInt 1, kwargs = None\<rparr>,
                  \<lparr>name = ''PvCount'', val = PyInt 7, kwargs = None\<rparr>]
        else Inl ConnectionError),
      prop_differs = (\<lambda>p v. Inr (p \<noteq> v)),
      prop_write = (\<lambda>p v. Inr v),
      db_store = (\<lambda>m. None)\<rparr>"

definition sample_group :: "string list \<Rightarrow> rat pyval \<Rightarrow> rat pyval option \<Rightarrow> (rat, rat pyval) group"
  where
  "sample_group reqs v0 init =
     \<lparr>requests = reqs,
      key_to_attr_map = [''PvCount'' \<mapsto> ''pv_count''],
      attrs = [''pv_count'' \<mapsto> v0],
      init_document = init,
      document_count = 0,
      trace = []\<rparr>"

text \<open>
  What the loops inside a tick leave alone and what they record: the schema and the
  document bookkeeping are untouched, and the flag \<^verbatim>\<open>changed\<close> is raised exactly when a
  write was made.
\<close>

definition tick_step ::
  "('f, 'p) group \<times> bool \<Rightarrow> ('f, 'p) group \<times> bool \<Rightarrow> bool" where
  "tick_step gc gc' =
     (document_count (fst gc') = document_count (fst gc)
      \<and> init_document (fst gc') = init_document (fst gc)
      \<and> requests (fst gc') = requests (fst gc)
      \<and> key_to_attr_map (fst gc') = key_to_attr_map (fst gc)
      \<and> dom (attrs (fst gc')) = dom (attrs (fst gc))
      \<and> stores (fst gc') = stores (fst gc)
      \<and> writes (fst gc) \<le> writes (fst gc')
      \<and> (snd gc' = (snd gc \<or> writes (fst gc) < writes (fst gc'))))"

section \<open>Key normalisation\<close>

text \<open>
  C9 (as the code has it).  On the label of the docstring,
  \<^verbatim>\<open>"Avg time spent by getETLStreams() in ETL(0&raquo;1) (s/run)"\<close>, \<^verbatim>\<open>key_to_pv\<close>
  returns \<^verbatim>\<open>AvgTimeSpentByGetEtlStreamsInEtl0To1SPerRun\<close>: the parametrisation
  lower-cases the label, so the acronym comes out as the segment \<^verbatim>\<open>Etl\<close>, followed
  by \<^verbatim>\<open>To\<close> and \<^verbatim>\<open>PerRun\<close> in this order.
\<close>

theorem key_to_pv_example:
  "key_to_pv ''Avg time spent by getETLStreams() in ETL(0&raquo;1) (s/run)''
     = ''AvgTimeSpentByGetEtlStreamsInEtl0To1SPerRun''
   \<and> segments_in_order [''Etl'', ''To'', ''PerRun'']
        (key_to_pv ''Avg time spent by getETLStreams() in ETL(0&raquo;1) (s/run)'')"
  by code_simp

text \<open>
  C9 as stated fails: the identifier has no segment \<^verbatim>\<open>ETL\<close> in upper case.
\<close>

theorem key_to_pv_no_upper_ETL:
  "\<not> segments_in_order [''ETL'', ''To'', ''PerRun'']
        (key_to_pv ''Avg time spent by getETLStreams() in ETL(0&raquo;1) (s/run)'')"
  by code_simp

section \<open>The value coercer\<close>

lemma str_replace_absent: "c \<notin> set s \<Longrightarrow> str_replace [c] new s = s"
  by (induction s) auto

lemma str_replace_removes: "c \<notin> set (str_replace [c] [] s)"
  by (induction "[c]" "[]::string" s rule: str_replace.induct) auto

lemma str_replace_comma_idem:
  "str_replace '','' [] (str_replace '','' [] s) = str_replace '','' [] s"
  by (rule str_replace_absent) (rule str_replace_removes)

lemma ast_literal_eval_room: "ast_literal_eval n rt v = Inr ev \<Longrightarrow> 0 < n \<and> type_of v = TStr"
  by (cases v) (auto simp: ast_literal_eval_def split: if_splits)

text \<open>Whatever room is left inside the call, the coercer returns.\<close>

lemma archiver_literal_eval_frames_returns:
  "\<exists>y. archiver_literal_eval_frames (Suc n) rt v = Inr y"
proof (induction n arbitrary: v)
  case 0
  show ?case by (simp add: ast_literal_eval_def)
next
  case (Suc n)
  show ?case
  proof (cases "ast_literal_eval (Suc n) rt v")
    case (Inl e)
    then show ?thesis by simp
  next
    case (Inr ev)
    then obtain s where v: "v = PyStr s"
      using ast_literal_eval_room[OF Inr] by (cases v) auto
    from Suc[of "PyStr (str_replace '','' [] s)"] Inr v show ?thesis
      by (cases "type_of ev = TTuple") auto
  qed
qed

lemma archiver_literal_eval_total: "\<exists>y. archiver_literal_eval rt v = Inr y"
  unfolding archiver_literal_eval_def by (rule archiver_literal_eval_frames_returns)

lemma archiver_literal_eval_not_str:
  "type_of v \<noteq> TStr \<Longrightarrow> archiver_literal_eval rt v = Inr v"
  by (cases v) (simp_all add: archiver_literal_eval_def ast_literal_eval_def)

text \<open>
  A comma-free text that evaluates to a tuple (the empty tuple \<^verbatim>\<open>()\<close> does) recurses
  on itself until the stack is used up; the \<^verbatim>\<open>RecursionError\<close> is then raised inside
  the \<^verbatim>\<open>try\<close> of the innermost call, and the text comes back.
\<close>

lemma archiver_literal_eval_frames_fixed:
  assumes "literal_eval rt t = Inr ev" "type_of ev = TTuple" "str_replace '','' [] t = t"
  shows "archiver_literal_eval_frames (Suc n) rt (PyStr t) = Inr (PyStr t)"
proof (induction n)
  case 0
  show ?case by (simp add: ast_literal_eval_def)
next
  case (Suc n)
  with assms show ?case by (simp add: ast_literal_eval_def)
qed

text \<open>The coercer on a string, with room for two nested calls.\<close>

lemma archiver_literal_eval_unfold:
  assumes "2 \<le> spare_frames rt"
  shows "archiver_literal_eval rt (PyStr s) =
           Inr (case literal_eval rt s of
                  Inl e \<Rightarrow> PyStr s
                | Inr ev \<Rightarrow>
                    if type_of ev \<noteq> TTuple then ev
                    else (case usable_literal (literal_eval rt (str_replace '','' [] s)) of
                            Some ev' \<Rightarrow> ev'
                          | None \<Rightarrow> PyStr (str_replace '','' [] s)))"
proof -
  let ?t = "str_replace '','' [] s"
  from assms obtain k where k: "spare_frames rt = Suc (Suc k)"
    by (cases "spare_frames rt"; cases "spare_frames rt - 1") auto
  have retry: "archiver_literal_eval_frames (Suc (Suc k)) rt (PyStr ?t) =
      Inr (case usable_literal (literal_eval rt ?t) of Some ev' \<Rightarrow> ev' | None \<Rightarrow> PyStr ?t)"
  proof (cases "literal_eval rt ?t")
    case (Inl e)
    then show ?thesis by (simp add: ast_literal_eval_def usable_literal_def)
  next
    case (Inr ev')
    show ?thesis
    proof (cases "type_of ev' = TTuple")
      case False
      with Inr show ?thesis by (simp add: ast_literal_eval_def usable_literal_def)
    next
      case True
      have "archiver_literal_eval_frames (Suc k) rt (PyStr ?t) = Inr (PyStr ?t)"
        using Inr True str_replace_comma_idem by (rule archiver_literal_eval_frames_fixed)
      with Inr True show ?thesis
        by (simp add: ast_literal_eval_def usable_literal_def str_replace_comma_idem)
    qed
  qed
  show ?thesis
  proof (cases "literal_eval rt s")
    case (Inl e)
    then show ?thesis by (simp add: archiver_literal_eval_def k ast_literal_eval_def)
  next
    case (Inr ev)
    with retry show ?thesis
      by (simp add: archiver_literal_eval_def k ast_literal_eval_def)
  qed
qed

lemma archiver_literal_eval_sample:
  "archiver_literal_eval sample_runtime (PyStr s) =
     Inr (case literal_eval sample_runtime s of
            Inl e \<Rightarrow> PyStr s
          | Inr ev \<Rightarrow>
              if type_of ev \<noteq> TTuple then ev
              else (case usable_literal (literal_eval sample_runtime (str_replace '','' [] s)) of
                      Some ev' \<Rightarrow> ev'
                    | None \<Rightarrow> PyStr (str_replace '','' [] s)))"
  by (rule archiver_literal_eval_unfold) (simp add: sample_runtime_def)

text \<open>
  C2 (as the code has it).  The coercer returns for every input and never raises.
  With room for two nested calls: a parse that gives a value that is not a tuple
  returns that value; a parse that gives a tuple is followed by the coercer on the
  text with every comma removed, which returns that text's value when it parses to
  something that is not a tuple, and the comma-free text otherwise; a parse that
  raises, where the comma-free text would not parse to such a value either, returns
  the raw text.
\<close>

theorem archiver_literal_eval_returns:
  "(\<exists>y. archiver_literal_eval rt v = Inr y)
   \<and> (2 \<le> spare_frames rt \<longrightarrow>
        (\<forall>ev. literal_eval rt s = Inr ev \<and> type_of ev \<noteq> TTuple
                \<longrightarrow> archiver_literal_eval rt (PyStr s) = Inr ev)
      \<and> (\<forall>ev. literal_eval rt s = Inr ev \<and> type_of ev = TTuple
                \<longrightarrow> archiver_literal_eval rt (PyStr s) =
                      Inr (case usable_literal (literal_eval rt (str_replace '','' [] s)) of
                             Some ev' \<Rightarrow> ev'
                           | None \<Rightarrow> PyStr (str_replace '','' [] s)))
      \<and> (\<forall>e. literal_eval rt s = Inl e
                \<and> usable_literal (literal_eval rt (str_replace '','' [] s)) = None
                \<longrightarrow> archiver_literal_eval rt (PyStr s) = Inr (PyStr s)))"
proof (intro conjI impI allI)
  show "\<exists>y. archiver_literal_eval rt v = Inr y"
    by (rule archiver_literal_eval_total)
next
  fix ev
  assume "2 \<le> spare_frames rt" "literal_eval rt s = Inr ev \<and> type_of ev \<noteq> TTuple"
  then show "archiver_literal_eval rt (PyStr s) = Inr ev"
    by (simp add: archiver_literal_eval_unfold)
next
  fix ev
  assume "2 \<le> spare_frames rt" "literal_eval rt s = Inr ev \<and> type_of ev = TTuple"
  then show "archiver_literal_eval rt (PyStr s) =
      Inr (case usable_literal (literal_eval rt (str_replace '','' [] s)) of
             Some ev' \<Rightarrow> ev'
           | None \<Rightarrow> PyStr (str_replace '','' [] s))"
    by (simp add: archiver_literal_eval_unfold)
next
  fix e
  assume "2 \<le> spare_frames rt"
    "literal_eval rt s = Inl e \<and> usable_literal (literal_eval rt (str_replace '','' [] s)) = None"
  then show "archiver_literal_eval rt (PyStr s) = Inr (PyStr s)"
    by (simp add: archiver_literal_eval_unfold)
qed

theorem archiver_literal_eval_returns_witness:
  "archiver_literal_eval sample_runtime (PyStr ''160,732'') = Inr (PyInt 160732)
   \<and> archiver_literal_eval sample_runtime (PyStr ''()'') = Inr (PyStr ''()'')
   \<and> archiver_literal_eval sample_runtime (PyStr ''ok'') = Inr (PyStr ''ok'')
   \<and> (\<exists>y. archiver_literal_eval sample_runtime (PyInt 5) = Inr y)"
proof -
  have room: "2 \<le> spare_frames sample_runtime"
    by (simp add: sample_runtime_def)
  have a: "literal_eval sample_runtime ''160,732'' = Inr (PyTuple [PyInt 160, PyInt 732])
           \<and> type_of (PyTuple [PyInt 160, PyInt 732] :: rat pyval) = TTuple"
    and b: "literal_eval sample_runtime ''()'' = Inr (PyTuple [])
           \<and> type_of (PyTuple [] :: rat pyval) = TTuple"
    and c: "literal_eval sample_runtime ''ok'' = Inl ValueError
           \<and> usable_literal (literal_eval sample_runtime (str_replace '','' [] ''ok'')) = None"
    by (simp_all add: sample_runtime_def sample_literals_def usable_literal_def)
  have ta: "(case usable_literal (literal_eval sample_runtime (str_replace '','' [] ''160,732'')) of
               Some ev' \<Rightarrow> ev' | None \<Rightarrow> PyStr (str_replace '','' [] ''160,732''))
            = PyInt 160732"
    and tb: "(case usable_literal (literal_eval sample_runtime (str_replace '','' [] ''()'')) of
               Some ev' \<Rightarrow> ev' | None \<Rightarrow> PyStr (str_replace '','' [] ''()''))
            = PyStr ''()''"
    by (simp_all add: sample_runtime_def sample_literals_def usable_literal_def)
  from archiver_literal_eval_returns[of sample_runtime "PyInt 5" "''160,732''"] room a
  have "archiver_literal_eval sample_runtime (PyStr ''160,732'') = Inr (PyInt 160732)"
    unfolding ta by blast
  moreover from archiver_literal_eval_returns[of sample_runtime "PyInt 5" "''()''"] room b
  have "archiver_literal_eval sample_runtime (PyStr ''()'') = Inr (PyStr ''()'')"
    unfolding tb by blast
  moreover from archiver_literal_eval_returns[of sample_runtime "PyInt 5" "''ok''"] room c
  have "archiver_literal_eval sample_runtime (PyStr ''ok'') = Inr (PyStr ''ok'')"
    by blast
  moreover from archiver_literal_eval_returns[of sample_runtime "PyInt 5" "''ok''"]
  have "\<exists>y. archiver_literal_eval sample_runtime (PyInt 5) = Inr y"
    by blast
  ultimately show ?thesis by blast
qed

text \<open>
  C2 as stated fails.  \<^verbatim>\<open>"1, 2"\<close> evaluates to a tuple and \<^verbatim>\<open>"1 2"\<close> does not
  parse: the source returns the comma-free text \<^verbatim>\<open>"1 2"\<close>, where the specified
  coercer gives back the original raw text.
\<close>

theorem archiver_literal_eval_not_raw_text:
  "archiver_literal_eval sample_runtime (PyStr ''1, 2'') = Inr (PyStr ''1 2'')
   \<and> coerce_as_specified sample_runtime ''1, 2'' = PyStr ''1, 2''"
  by (simp only: archiver_literal_eval_sample)
     (simp add: coerce_as_specified_def usable_literal_def sample_runtime_def
        sample_literals_def)

text \<open>
  A thousands-separated number with a group that starts with a zero does not parse
  (\<^verbatim>\<open>"1,024"\<close>): the first parse raises, the source returns the raw text and the commas
  are never removed, although the comment in the source names such numbers as what the
  removal is for.
\<close>

lemma archiver_literal_eval_leading_zero:
  "archiver_literal_eval sample_runtime (PyStr ''1,024'') = Inr (PyStr ''1,024'')
   \<and> coerce_as_specified sample_runtime ''1,024'' = PyInt 1024"
  by (simp only: archiver_literal_eval_sample)
     (simp add: coerce_as_specified_def usable_literal_def sample_runtime_def
        sample_literals_def)

section \<open>Attribute specifications\<close>

text \<open>
  C10.  \<^verbatim>\<open>_value_to_pvproperty_kwargs\<close> raises exactly when the coerced value's type
  is none of bool, int, float and str, and what it raises is the \<^verbatim>\<open>KeyError\<close> of
  the record-type lookup.  The raw strings \<^verbatim>\<open>"None"\<close> and \<^verbatim>\<open>"[1, 2]"\<close> evaluate to
  \<^verbatim>\<open>None\<close> and to a list, so they raise instead of becoming strings.
\<close>

theorem value_to_pvproperty_kwargs_raises:
  "(value_to_pvproperty_kwargs rt key v0 = Some (Inl e))
     = (e = KeyError
        \<and> (\<exists>v. archiver_literal_eval rt v0 = Inr v
                 \<and> type_of v \<notin> {TBool, TInt, TFloat, TStr}))
   \<and> value_to_pvproperty_kwargs sample_runtime k (PyStr ''None'') = raises KeyError
   \<and> value_to_pvproperty_kwargs sample_runtime k (PyStr ''[1, 2]'') = raises KeyError"
proof (intro conjI)
  show "(value_to_pvproperty_kwargs rt key v0 = Some (Inl e))
     = (e = KeyError
        \<and> (\<exists>v. archiver_literal_eval rt v0 = Inr v
                 \<and> type_of v \<notin> {TBool, TInt, TFloat, TStr}))"
  proof (cases "archiver_literal_eval rt v0")
    case (Inl e')
    with archiver_literal_eval_total[of rt v0] show ?thesis by simp
  next
    case (Inr v)
    then show ?thesis
      by (cases "type_of v")
         (auto simp: value_to_pvproperty_kwargs_def record_table_def raises_def returns_def
            Let_def)
  qed
next
  show "value_to_pvproperty_kwargs sample_runtime k (PyStr ''None'') = raises KeyError"
    by (simp only: value_to_pvproperty_kwargs_def archiver_literal_eval_sample)
       (simp add: sample_runtime_def sample_literals_def record_table_def)
next
  show "value_to_pvproperty_kwargs sample_runtime k (PyStr ''[1, 2]'') = raises KeyError"
    by (simp only: value_to_pvproperty_kwargs_def archiver_literal_eval_sample)
       (simp add: sample_runtime_def sample_literals_def record_table_def)
qed

section \<open>Detailed metrics: the estimated-bytes items\<close>

lemma bind_result_returns [simp]: "bind_result (returns x) f = f x"
  by (simp add: bind_result_def returns_def)

lemma bind_result_raises [simp]: "bind_result (raises e) f = raises e"
  by (simp add: bind_result_def raises_def)

lemma bind_result_Some_Inr [simp]: "bind_result (Some (Inr x)) f = f x"
  by (simp add: bind_result_def)

lemma bind_result_Some_Inl [simp]: "bind_result (Some (Inl e)) f = Some (Inl e)"
  by (simp add: bind_result_def)

lemma rsplit1_parts:
  assumes "rsplit1 sep s = Some (a, b)"
  shows "s = a @ sep # b"
proof -
  from assms have mem: "sep \<in> set (rev s)"
    and a: "a = rev (drop 1 (dropWhile (\<lambda>c. c \<noteq> sep) (rev s)))"
    and b: "b = rev (takeWhile (\<lambda>c. c \<noteq> sep) (rev s))"
    by (auto simp: rsplit1_def split: if_splits)
  from mem have "dropWhile (\<lambda>c. c \<noteq> sep) (rev s) \<noteq> []" by simp
  moreover from mem have "hd (dropWhile (\<lambda>c. c \<noteq> sep) (rev s)) = sep"
    using hd_dropWhile[of "\<lambda>c. c \<noteq> sep" "rev s"] by simp
  ultimately have "dropWhile (\<lambda>c. c \<noteq> sep) (rev s)
      = sep # drop 1 (dropWhile (\<lambda>c. c \<noteq> sep) (rev s))"
    by (cases "dropWhile (\<lambda>c. c \<noteq> sep) (rev s)") auto
  then have "rev s = rev b @ sep # rev a"
    using takeWhile_dropWhile_id[of "\<lambda>c. c \<noteq> sep" "rev s"] a b by simp
  then have "rev (rev s) = rev (rev b @ sep # rev a)" by simp
  then show ?thesis by simp
qed

text \<open>The item that the generator yields for an estimated-bytes entry.\<close>

lemma load_and_filter_item_estimated:
  assumes "startswith nm ''Estimated bytes transferred in ETL''"
    and "rsplit1 CHR ''('' nm = Some (unitless_name, units)"
    and "map_of d ''name'' = Some (PyStr nm)"
    and "map_of d ''value'' = Some raw"
    and "archiver_literal_eval rt raw = Inr v"
  shows "load_and_filter_item rt (PyDict d) =
           bind_result
             (if py_bool rt v then Some (to_megabytes rt (rstrip_char CHR '')'' units) v)
              else returns v)
             (\<lambda>v'. returns (PyDict (AList.update ''value'' v'
                       (AList.update ''name'' (PyStr (unitless_name @ ''(MB)'')) d))))"
  using assms by (simp add: load_and_filter_item_def returns_def)

lemma detailed_field_updated:
  "detailed_field rt (PyDict (AList.update ''value'' v'
       (AList.update ''name'' (PyStr n') d))) =
     bind_result (value_to_pvproperty_kwargs rt n' v')
       (\<lambda>vk. returns (make_field (key_to_pv n') vk))"
  by (simp add: detailed_field_def update_conv')

lemma value_to_pvproperty_kwargs_number:
  assumes "type_of v \<in> {TBool, TInt, TFloat}"
  shows "value_to_pvproperty_kwargs rt key v =
           returns (v, \<lparr>doc = key,
                        record_type = (case type_of v of TBool \<Rightarrow> ''bi''
                                       | TInt \<Rightarrow> ''longin'' | _ \<Rightarrow> ''ai''),
                        report_as_string = None, max_length = None\<rparr>)"
proof -
  from assms have "type_of v \<noteq> TStr" by auto
  then have "archiver_literal_eval rt v = Inr v" by (rule archiver_literal_eval_not_str)
  with assms show ?thesis
    by (auto simp: value_to_pvproperty_kwargs_def record_table_def)
qed

lemma as_float_number: "as_float rt v = Inr x \<Longrightarrow> type_of v \<in> {TBool, TInt, TFloat}"
  by (cases v) auto

text \<open>
  C1 (as the code has it).  An item named \<open>unitless_name(units)\<close> that starts with the estimated-bytes
  prefix, whose coerced value \<open>v\<close> is true and is a number with float value \<open>x\<close>,
  gives one field.  Its name is the key made from \<open>unitless_name(MB)\<close>, which is also
  its \<^verbatim>\<open>doc\<close>, whatever the unit was.  Its value is \<open>x / 1024.0\<close> for \<^verbatim>\<open>KB\<close>,
  \<open>x * 1024.0\<close> for \<^verbatim>\<open>GB\<close>, and \<open>v\<close> itself for \<^verbatim>\<open>MB\<close>.
\<close>

theorem detailed_item_estimated_bytes:
  assumes "startswith nm ''Estimated bytes transferred in ETL''"
    and "rsplit1 CHR ''('' nm = Some (unitless_name, units)"
    and "map_of d ''name'' = Some (PyStr nm)"
    and "map_of d ''value'' = Some raw"
    and "archiver_literal_eval rt raw = Inr v"
    and "py_bool rt v"
    and "as_float rt v = Inr x"
  shows "nm = unitless_name @ ''('' @ units
       \<and> (\<exists>fld kw. detailed_item rt (PyDict d) = returns fld
            \<and> name fld = key_to_pv (unitless_name @ ''(MB)'')
            \<and> kwargs fld = Some kw \<and> doc kw = unitless_name @ ''(MB)''
            \<and> (rstrip_char CHR '')'' units = ''KB''
                  \<longrightarrow> val fld = PyFloat (float_truediv rt x (float_1024 rt)))
            \<and> (rstrip_char CHR '')'' units = ''GB''
                  \<longrightarrow> val fld = PyFloat (float_mul rt x (float_1024 rt)))
            \<and> (rstrip_char CHR '')'' units = ''MB'' \<longrightarrow> val fld = v))"
proof
  show "nm = unitless_name @ ''('' @ units"
    using rsplit1_parts[OF assms(2)] by simp
next
  let ?u = "rstrip_char CHR '')'' units"
  let ?n = "unitless_name @ ''(MB)''"
  from assms(7) have num: "type_of v \<in> {TBool, TInt, TFloat}" by (rule as_float_number)
  define v' where
    "v' = (if ?u = ''KB'' then PyFloat (float_truediv rt x (float_1024 rt))
           else if ?u = ''GB'' then PyFloat (float_mul rt x (float_1024 rt))
           else v)"
  have conv: "to_megabytes rt ?u v = Inr v'"
    using assms(7) by (simp add: v'_def to_megabytes_def py_truediv_def py_mul_def)
  have num': "type_of v' \<in> {TBool, TInt, TFloat}"
    using num by (simp add: v'_def)
  have kb: "?u = ''KB'' \<longrightarrow> v' = PyFloat (float_truediv rt x (float_1024 rt))"
    and gb: "?u = ''GB'' \<longrightarrow> v' = PyFloat (float_mul rt x (float_1024 rt))"
    and mb: "?u = ''MB'' \<longrightarrow> v' = v"
    by (simp_all add: v'_def)
  have "load_and_filter_item rt (PyDict d) =
          returns (PyDict (AList.update ''value'' v' (AList.update ''name'' (PyStr ?n) d)))"
    using load_and_filter_item_estimated[OF assms(1-5)] assms(6) conv by simp
  then have "detailed_item rt (PyDict d) =
          returns (make_field (key_to_pv ?n)
            (v', \<lparr>doc = ?n,
                   record_type = (case type_of v' of TBool \<Rightarrow> ''bi''
                                  | TInt \<Rightarrow> ''longin'' | _ \<Rightarrow> ''ai''),
                   report_as_string = None, max_length = None\<rparr>))"
    by (simp add: detailed_item_def detailed_field_updated
        value_to_pvproperty_kwargs_number[OF num'])
  with kb gb mb show "\<exists>fld kw. detailed_item rt (PyDict d) = returns fld
            \<and> name fld = key_to_pv ?n
            \<and> kwargs fld = Some kw \<and> doc kw = ?n
            \<and> (?u = ''KB'' \<longrightarrow> val fld = PyFloat (float_truediv rt x (float_1024 rt)))
            \<and> (?u = ''GB'' \<longrightarrow> val fld = PyFloat (float_mul rt x (float_1024 rt)))
            \<and> (?u = ''MB'' \<longrightarrow> val fld = v)"
    by (auto simp: make_field_def returns_def)
qed

theorem detailed_item_estimated_bytes_witness:
  "(\<exists>fld. detailed_item sample_runtime
            (PyDict [(''name'', PyStr ''Estimated bytes transferred in ETL(0&raquo;1)(KB)''),
                     (''value'', PyStr ''2048''), (''source'', PyStr ''etl'')]) = returns fld
          \<and> name fld = ''EstimatedBytesTransferredInEtl0To1Mb''
          \<and> val fld = PyFloat 2)
   \<and> (\<exists>fld. detailed_item sample_runtime
            (PyDict [(''name'', PyStr ''Estimated bytes transferred in ETL(0&raquo;1)(GB)''),
                     (''value'', PyStr ''2''), (''source'', PyStr ''etl'')]) = returns fld
          \<and> name fld = ''EstimatedBytesTransferredInEtl0To1Mb''
          \<and> val fld = PyFloat 2048)
   \<and> (\<exists>fld. detailed_item sample_runtime
            (PyDict [(''name'', PyStr ''Estimated bytes transferred in ETL(0&raquo;1)(MB)''),
                     (''value'', PyStr ''5''), (''source'', PyStr ''etl'')]) = returns fld
          \<and> name fld = ''EstimatedBytesTransferredInEtl0To1Mb''
          \<and> val fld = PyInt 5)"
proof -
  define un where "un = ''Estimated bytes transferred in ETL(0&raquo;1)''"
  define dkb where "dkb = [(''name'', PyStr (un @ ''(KB)'')),
                           (''value'', PyStr ''2048''), (''source'', PyStr ''etl'' :: rat pyval)]"
  define dgb where "dgb = [(''name'', PyStr (un @ ''(GB)'')),
                           (''value'', PyStr ''2''), (''source'', PyStr ''etl'' :: rat pyval)]"
  define dmb where "dmb = [(''name'', PyStr (un @ ''(MB)'')),
                           (''value'', PyStr ''5''), (''source'', PyStr ''etl'' :: rat pyval)]"
  have key: "key_to_pv (un @ ''(MB)'') = ''EstimatedBytesTransferredInEtl0To1Mb''"
    unfolding un_def by code_simp
  have kb: "startswith (un @ ''(KB)'') ''Estimated bytes transferred in ETL''"
    and gb: "startswith (un @ ''(GB)'') ''Estimated bytes transferred in ETL''"
    and mb: "startswith (un @ ''(MB)'') ''Estimated bytes transferred in ETL''"
    by (simp_all add: startswith_def un_def)
  have skb: "rsplit1 CHR ''('' (un @ ''(KB)'') = Some (un, ''KB)'')"
    and sgb: "rsplit1 CHR ''('' (un @ ''(GB)'') = Some (un, ''GB)'')"
    and smb: "rsplit1 CHR ''('' (un @ ''(MB)'') = Some (un, ''MB)'')"
    by (simp_all add: rsplit1_def)
  have c2048: "archiver_literal_eval sample_runtime (PyStr ''2048'') = Inr (PyInt 2048)"
    and c2: "archiver_literal_eval sample_runtime (PyStr ''2'') = Inr (PyInt 2)"
    and c5: "archiver_literal_eval sample_runtime (PyStr ''5'') = Inr (PyInt 5)"
    by (simp_all only: archiver_literal_eval_sample)
       (simp_all add: sample_runtime_def sample_literals_def)
  have f2048: "as_float sample_runtime (PyInt 2048) = Inr 2048"
    and f2: "as_float sample_runtime (PyInt 2) = Inr 2"
    and f5: "as_float sample_runtime (PyInt 5) = Inr 5"
    by (simp_all add: sample_runtime_def)
  have units: "rstrip_char CHR '')'' ''KB)'' = ''KB''" "rstrip_char CHR '')'' ''GB)'' = ''GB''"
    "rstrip_char CHR '')'' ''MB)'' = ''MB''"
    by (simp_all add: rstrip_char_def)
  have ar: "float_truediv sample_runtime 2048 (float_1024 sample_runtime) = 2"
    "float_mul sample_runtime 2 (float_1024 sample_runtime) = 2048"
    by (simp_all add: sample_runtime_def)
  have nkb: "map_of dkb ''name'' = Some (PyStr (un @ ''(KB)''))"
    and vkb: "map_of dkb ''value'' = Some (PyStr ''2048'')"
    and ngb: "map_of dgb ''name'' = Some (PyStr (un @ ''(GB)''))"
    and vgb: "map_of dgb ''value'' = Some (PyStr ''2'')"
    and nmb: "map_of dmb ''name'' = Some (PyStr (un @ ''(MB)''))"
    and vmb: "map_of dmb ''value'' = Some (PyStr ''5'')"
    by (simp_all add: dkb_def dgb_def dmb_def)
  have t2048: "py_bool sample_runtime (PyInt 2048)" and t2: "py_bool sample_runtime (PyInt 2)"
    and t5: "py_bool sample_runtime (PyInt 5)"
    by simp_all
  have "\<exists>fld. detailed_item sample_runtime (PyDict dkb) = returns fld
          \<and> name fld = ''EstimatedBytesTransferredInEtl0To1Mb'' \<and> val fld = PyFloat 2"
    using detailed_item_estimated_bytes[OF kb skb nkb vkb c2048 t2048 f2048]
    unfolding key units ar by blast
  moreover have "\<exists>fld. detailed_item sample_runtime (PyDict dgb) = returns fld
          \<and> name fld = ''EstimatedBytesTransferredInEtl0To1Mb'' \<and> val fld = PyFloat 2048"
    using detailed_item_estimated_bytes[OF gb sgb ngb vgb c2 t2 f2]
    unfolding key units ar by blast
  moreover have "\<exists>fld. detailed_item sample_runtime (PyDict dmb) = returns fld
          \<and> name fld = ''EstimatedBytesTransferredInEtl0To1Mb'' \<and> val fld = PyInt 5"
    using detailed_item_estimated_bytes[OF mb smb nmb vmb c5 t5 f5]
    unfolding key units ar by blast
  ultimately show ?thesis
    unfolding dkb_def dgb_def dmb_def un_def by simp
qed

text \<open>
  A true value that is not a number has no float value: \<^verbatim>\<open>value /= 1024.0\<close> and
  \<^verbatim>\<open>value *= 1024.0\<close> raise \<^verbatim>\<open>TypeError\<close>, and the item gives no field.
\<close>

lemma detailed_item_not_a_number:
  assumes "startswith nm ''Estimated bytes transferred in ETL''"
    and "rsplit1 CHR ''('' nm = Some (unitless_name, units)"
    and "map_of d ''name'' = Some (PyStr nm)"
    and "map_of d ''value'' = Some raw"
    and "archiver_literal_eval rt raw = Inr v"
    and "py_bool rt v"
    and "type_of v \<notin> {TBool, TInt, TFloat}"
    and "rstrip_char CHR '')'' units = ''KB'' \<or> rstrip_char CHR '')'' units = ''GB''"
  shows "detailed_item rt (PyDict d) = raises TypeError"
proof -
  from assms(7) have "as_float rt v = Inl TypeError" by (cases v) auto
  with assms(8) have "to_megabytes rt (rstrip_char CHR '')'' units) v = Inl TypeError"
    by (auto simp: to_megabytes_def py_truediv_def py_mul_def)
  with load_and_filter_item_estimated[OF assms(1-5)] assms(6) show ?thesis
    by (simp add: detailed_item_def raises_def)
qed

text \<open>
  C1 as stated fails.  The value \<^verbatim>\<open>"ok"\<close> does not parse, so its coerced value is the
  string itself, which is true; under the unit \<^verbatim>\<open>KB\<close> the division raises
  \<^verbatim>\<open>TypeError\<close> and the transformer returns no field at all.
\<close>

theorem detailed_item_string_value_raises:
  "archiver_literal_eval sample_runtime (PyStr ''ok'') = Inr (PyStr ''ok'')
   \<and> py_bool sample_runtime (PyStr ''ok'')
   \<and> detailed_metrics_to_pvproperties sample_runtime ''appliance0''
         (PyList [PyDict [(''name'', PyStr ''Estimated bytes transferred in ETL(0&raquo;1)(KB)''),
                          (''value'', PyStr ''ok''), (''source'', PyStr ''etl'')]])
       = raises TypeError"
  by code_simp

text \<open>
  C8.  When the coerced value of an estimated-bytes item is false (zero, empty), no
  conversion takes place whatever the unit: the yielded item carries the coerced value
  as it is, under the name rewritten to \<open>unitless_name(MB)\<close>.  For a number the
  emitted field has that value, and the key made from the rewritten name.
\<close>

theorem detailed_item_falsy_value:
  assumes "startswith nm ''Estimated bytes transferred in ETL''"
    and "rsplit1 CHR ''('' nm = Some (unitless_name, units)"
    and "map_of d ''name'' = Some (PyStr nm)"
    and "map_of d ''value'' = Some raw"
    and "archiver_literal_eval rt raw = Inr v"
    and "\<not> py_bool rt v"
  shows "load_and_filter_item rt (PyDict d) =
           returns (PyDict (AList.update ''value'' v
                      (AList.update ''name'' (PyStr (unitless_name @ ''(MB)'')) d)))
       \<and> (type_of v \<in> {TBool, TInt, TFloat} \<longrightarrow>
            (\<exists>kw. detailed_item rt (PyDict d) =
                     returns \<lparr>name = key_to_pv (unitless_name @ ''(MB)''), val = v,
                              kwargs = Some kw\<rparr>
                 \<and> doc kw = unitless_name @ ''(MB)''))"
proof (intro conjI impI)
  show filtered: "load_and_filter_item rt (PyDict d) =
           returns (PyDict (AList.update ''value'' v
                      (AList.update ''name'' (PyStr (unitless_name @ ''(MB)'')) d)))"
    using load_and_filter_item_estimated[OF assms(1-5)] assms(6) by simp
  show "\<exists>kw. detailed_item rt (PyDict d) =
                     returns \<lparr>name = key_to_pv (unitless_name @ ''(MB)''), val = v,
                              kwargs = Some kw\<rparr>
                 \<and> doc kw = unitless_name @ ''(MB)''"
    if num: "type_of v \<in> {TBool, TInt, TFloat}"
    using filtered
    by (simp add: detailed_item_def detailed_field_updated
        value_to_pvproperty_kwargs_number[OF num] make_field_def returns_def)
qed

theorem detailed_item_falsy_value_witness:
  "\<exists>kw. detailed_item sample_runtime
            (PyDict [(''name'', PyStr ''Estimated bytes transferred in ETL(0&raquo;1)(KB)''),
                     (''value'', PyStr ''0''), (''source'', PyStr ''etl'')])
          = returns \<lparr>name = ''EstimatedBytesTransferredInEtl0To1Mb'', val = PyInt 0,
                      kwargs = Some kw\<rparr>
        \<and> doc kw = ''Estimated bytes transferred in ETL(0&raquo;1)(MB)''"
proof -
  define un where "un = ''Estimated bytes transferred in ETL(0&raquo;1)''"
  define dkb where "dkb = [(''name'', PyStr (un @ ''(KB)'')),
                           (''value'', PyStr ''0''), (''source'', PyStr ''etl'' :: rat pyval)]"
  have key: "key_to_pv (un @ ''(MB)'') = ''EstimatedBytesTransferredInEtl0To1Mb''"
    unfolding un_def by code_simp
  have kb: "startswith (un @ ''(KB)'') ''Estimated bytes transferred in ETL''"
    by (simp add: startswith_def un_def)
  have skb: "rsplit1 CHR ''('' (un @ ''(KB)'') = Some (un, ''KB)'')"
    by (simp add: rsplit1_def)
  have c0: "archiver_literal_eval sample_runtime (PyStr ''0'') = Inr (PyInt 0)"
    by (simp only: archiver_literal_eval_sample)
       (simp add: sample_runtime_def sample_literals_def)
  have falsy: "\<not> py_bool sample_runtime (PyInt 0)" by simp
  have nkb: "map_of dkb ''name'' = Some (PyStr (un @ ''(KB)''))"
    and vkb: "map_of dkb ''value'' = Some (PyStr ''0'')"
    by (simp_all add: dkb_def)
  have num: "type_of (PyInt 0 :: rat pyval) \<in> {TBool, TInt, TFloat}" by simp
  have "\<exists>kw. detailed_item sample_runtime (PyDict dkb)
          = returns \<lparr>name = ''EstimatedBytesTransferredInEtl0To1Mb'', val = PyInt 0,
                      kwargs = Some kw\<rparr>
        \<and> doc kw = un @ ''(MB)''"
    using detailed_item_falsy_value[OF kb skb nkb vkb c0 falsy] num
    unfolding key by blast
  then show ?thesis
    unfolding dkb_def un_def by simp
qed

section \<open>Process metrics\<close>

lemma seq_index_last: "seq_index (xs @ [x]) (- 1) = Inr x"
  by (simp add: seq_index_def)

lemma seq_index_second: "seq_index (t # v # rest) 1 = Inr v"
  by (simp add: seq_index_def)

text \<open>
  C7.  An item with a string label gives a field, whatever its \<^verbatim>\<open>data\<close>: the name is
  the camelized text before the first space of the label; the value is the second
  component of the last pair of \<^verbatim>\<open>data\<close>, the integer \<open>0\<close> when \<^verbatim>\<open>data\<close> is the empty
  list, and the float \<open>0.0\<close> when \<^verbatim>\<open>data\<close> is true but \<^verbatim>\<open>data[-1][1]\<close> raises.
\<close>

theorem to_process_info_value:
  assumes "map_of d ''label'' = Some (PyStr l)"
    and "map_of d ''data'' = Some data"
  shows "\<exists>fld. to_process_info rt (PyDict d) = Inr fld
       \<and> process_metrics_to_pvproperties rt (PyList [PyDict d]) = returns [fld]
       \<and> name fld = camelize (split_first CHR '' '' l)
       \<and> (\<forall>xs t v rest. data = PyList (xs @ [PyList (t # v # rest)]) \<longrightarrow> val fld = v)
       \<and> (data = PyList [] \<longrightarrow> val fld = PyInt 0)
       \<and> (py_bool rt data
            \<and> (\<forall>pair. getitem_int data (- 1) = Inr pair \<longrightarrow> (\<exists>e. getitem_int pair 1 = Inl e))
            \<longrightarrow> val fld = PyFloat (float_0 rt))"
proof -
  let ?fld = "\<lparr>name = camelize (split_first CHR '' '' l), val = get_value rt data,
               kwargs = None\<rparr>"
  have info: "to_process_info rt (PyDict d) = Inr ?fld"
    using assms by (simp add: to_process_info_def)
  have whole: "process_metrics_to_pvproperties rt (PyList [PyDict d]) = returns [?fld]"
    by (simp add: process_metrics_to_pvproperties_def info bind_result_def returns_def)
  have last_pair: "get_value rt (PyList (xs @ [PyList (t # v # rest)])) = v" for xs t v rest
    by (simp add: get_value_def seq_index_last seq_index_second)
  have empty: "get_value rt (PyList []) = PyInt 0"
    by (simp add: get_value_def)
  have malformed: "get_value rt data = PyFloat (float_0 rt)"
    if "py_bool rt data"
      and "\<forall>pair. getitem_int data (- 1) = Inr pair \<longrightarrow> (\<exists>e. getitem_int pair 1 = Inl e)"
    using that by (auto simp: get_value_def split: sum.splits)
  from info whole last_pair empty malformed show ?thesis
    by (intro exI[of _ ?fld]) auto
qed

theorem to_process_info_value_witness:
  "process_metrics_to_pvproperties sample_runtime
     (PyList [PyDict [(''label'', PyStr ''Foo Bar''),
                      (''data'', PyList [PyList [PyInt 1, PyInt 10],
                                         PyList [PyInt 2, PyInt 20]])]])
     = returns [\<lparr>name = ''Foo'', val = PyInt 20, kwargs = None\<rparr>]
   \<and> process_metrics_to_pvproperties sample_runtime
       (PyList [PyDict [(''label'', PyStr ''X''), (''data'', PyList [])]])
     = returns [\<lparr>name = ''X'', val = PyInt 0, kwargs = None\<rparr>]
   \<and> process_metrics_to_pvproperties sample_runtime
       (PyList [PyDict [(''label'', PyStr ''X''), (''data'', PyList [PyList [PyInt 1]])]])
     = returns [\<lparr>name = ''X'', val = PyFloat 0, kwargs = None\<rparr>]"
proof -
  define d1 :: "(string \<times> rat pyval) list" where
    "d1 = [(''label'', PyStr ''Foo Bar''),
           (''data'', PyList ([PyList [PyInt 1, PyInt 10]] @ [PyList (PyInt 2 # PyInt 20 # [])]))]"
  define d2 :: "(string \<times> rat pyval) list" where
    "d2 = [(''label'', PyStr ''X''), (''data'', PyList [])]"
  define d3 :: "(string \<times> rat pyval) list" where
    "d3 = [(''label'', PyStr ''X''), (''data'', PyList [PyList [PyInt 1]])]"
  have foo: "camelize (split_first CHR '' '' ''Foo Bar'') = ''Foo''"
    and x: "camelize (split_first CHR '' '' ''X'') = ''X''"
    by code_simp+
  have l1: "map_of d1 ''label'' = Some (PyStr ''Foo Bar'')"
    and v1: "map_of d1 ''data'' = Some (PyList ([PyList [PyInt 1, PyInt 10]]
                                          @ [PyList (PyInt 2 # PyInt 20 # [])]))"
    and l2: "map_of d2 ''label'' = Some (PyStr ''X'')"
    and v2: "map_of d2 ''data'' = Some (PyList [])"
    and l3: "map_of d3 ''label'' = Some (PyStr ''X'')"
    and v3: "map_of d3 ''data'' = Some (PyList [PyList [PyInt 1]])"
    by (simp_all add: d1_def d2_def d3_def)
  have bad: "py_bool sample_runtime (PyList [PyList [PyInt 1 :: rat pyval]])
      \<and> (\<forall>pair. getitem_int (PyList [PyList [PyInt 1 :: rat pyval]]) (- 1) = Inr pair
            \<longrightarrow> (\<exists>e. getitem_int pair 1 = Inl e))"
    by (simp add: seq_index_def)
  obtain f1 where f1: "process_metrics_to_pvproperties sample_runtime (PyList [PyDict d1])
        = returns [f1]" "name f1 = ''Foo''" "val f1 = PyInt 20"
      "to_process_info sample_runtime (PyDict d1) = Inr f1"
    using to_process_info_value[OF l1 v1, of sample_runtime] unfolding foo by blast
  obtain f2 where f2: "process_metrics_to_pvproperties sample_runtime (PyList [PyDict d2])
        = returns [f2]" "name f2 = ''X''" "val f2 = PyInt 0"
      "to_process_info sample_runtime (PyDict d2) = Inr f2"
    using to_process_info_value[OF l2 v2, of sample_runtime] unfolding x by blast
  obtain f3 where f3: "process_metrics_to_pvproperties sample_runtime (PyList [PyDict d3])
        = returns [f3]" "name f3 = ''X''" "val f3 = PyFloat (float_0 sample_runtime)"
      "to_process_info sample_runtime (PyDict d3) = Inr f3"
    using to_process_info_value[OF l3 v3, of sample_runtime] bad unfolding x by blast
  have k: "kwargs f1 = None" "kwargs f2 = None" "kwargs f3 = None"
    using f1(4) f2(4) f3(4) l1 l2 l3
    by (auto simp: to_process_info_def d1_def d2_def d3_def)
  have z: "float_0 sample_runtime = 0" by (simp add: sample_runtime_def)
  have "f1 = \<lparr>name = ''Foo'', val = PyInt 20, kwargs = None\<rparr>"
    and "f2 = \<lparr>name = ''X'', val = PyInt 0, kwargs = None\<rparr>"
    and "f3 = \<lparr>name = ''X'', val = PyFloat 0, kwargs = None\<rparr>"
    using f1(2,3) f2(2,3) f3(2,3) k z by simp_all
  with f1(1) f2(1) f3(1) show ?thesis
    by (simp add: d1_def d2_def d3_def)
qed

section \<open>Instance metrics\<close>

lemma comprehension_returns:
  assumes "\<And>x. x \<in> set xs \<Longrightarrow> f x = returns (g x)"
  shows "comprehension f xs = returns (map g xs)"
  using assms by (induction xs) simp_all

text \<open>The keyword arguments built for a value of one of the four hosted types.\<close>

lemma value_to_pvproperty_kwargs_returns:
  assumes "archiver_literal_eval rt v = Inr c"
    and "type_of c \<in> {TBool, TInt, TFloat, TStr}"
  shows "value_to_pvproperty_kwargs rt key v =
           returns (c, \<lparr>doc = key,
                        record_type = (case type_of c of TBool \<Rightarrow> ''bi'' | TInt \<Rightarrow> ''longin''
                                       | TFloat \<Rightarrow> ''ai'' | _ \<Rightarrow> ''stringin''),
                        report_as_string = (if type_of c = TStr then Some True else None),
                        max_length = (if type_of c = TStr then Some 2000 else None)\<rparr>)"
  using assms
  by (auto simp: value_to_pvproperty_kwargs_def record_table_def Let_def)

text \<open>
  C6 (as the code has it).  For a payload of objects that each carry a string under
  \<^verbatim>\<open>instance\<close> and whose values all coerce to a bool, int, float or string, the
  transformer returns one field for every key of every object, in order, the key
  \<^verbatim>\<open>instance\<close> included: the field for key \<open>k\<close> of an object of instance \<open>i\<close> is
  named \<open>i:key_to_pv k\<close> and documented by \<open>k\<close>.
\<close>

theorem instance_metrics_fields:
  assumes inst: "\<forall>d \<in> set ds. map_of d ''instance'' = Some (PyStr (inst_of d))"
    and vals: "\<forall>d \<in> set ds. \<forall>kv \<in> set d.
                 \<exists>c. archiver_literal_eval rt (snd kv) = Inr c
                     \<and> type_of c \<in> {TBool, TInt, TFloat, TStr}"
  shows "\<exists>flds. instance_metrics_to_pvproperties rt (PyList (map PyDict ds)) = returns flds
       \<and> map name flds
           = concat (map (\<lambda>d. map (\<lambda>kv. inst_of d @ '':'' @ key_to_pv (fst kv)) d) ds)
       \<and> map (\<lambda>fld. map_option doc (kwargs fld)) flds
           = concat (map (\<lambda>d. map (\<lambda>kv. Some (fst kv)) d) ds)
       \<and> (\<forall>d \<in> set ds. inst_of d @ '':'' @ key_to_pv ''instance'' \<in> set (map name flds))"
proof -
  define kw_of where
    "kw_of = (\<lambda>key (c :: 'a pyval).
       \<lparr>doc = key,
        record_type = (case type_of c of TBool \<Rightarrow> ''bi'' | TInt \<Rightarrow> ''longin''
                       | TFloat \<Rightarrow> ''ai'' | _ \<Rightarrow> ''stringin''),
        report_as_string = (if type_of c = TStr then Some True else None),
        max_length = (if type_of c = TStr then Some 2000 else None)\<rparr>)"
  define one where
    "one = (\<lambda>(d :: (string \<times> 'a pyval) list) (kv :: string \<times> 'a pyval).
       make_field (inst_of d @ '':'' @ key_to_pv (fst kv))
         (projr (archiver_literal_eval rt (snd kv)),
          kw_of (fst kv) (projr (archiver_literal_eval rt (snd kv)))))"
  have elem: "bind_result (Some (to_instance_pv (PyDict d) (fst kv))) (\<lambda>n.
              bind_result (value_to_pvproperty_kwargs rt (fst kv) (snd kv)) (\<lambda>vk.
              returns (make_field n vk))) = returns (one d kv)
            \<and> name (one d kv) = inst_of d @ '':'' @ key_to_pv (fst kv)
            \<and> map_option doc (kwargs (one d kv)) = Some (fst kv)"
    if d: "d \<in> set ds" and kv: "kv \<in> set d" for d kv
  proof -
    from vals d kv obtain c where c: "archiver_literal_eval rt (snd kv) = Inr c"
      "type_of c \<in> {TBool, TInt, TFloat, TStr}" by blast
    have kw: "value_to_pvproperty_kwargs rt (fst kv) (snd kv) = returns (c, kw_of (fst kv) c)"
      unfolding kw_of_def by (rule value_to_pvproperty_kwargs_returns[OF c])
    have nm: "to_instance_pv (PyDict d) (fst kv) = Inr (inst_of d @ '':'' @ key_to_pv (fst kv))"
      using inst d by (simp add: to_instance_pv_def prefixed_name_def)
    show ?thesis
      using kw nm c(1) by (simp add: one_def make_field_def kw_of_def)
  qed
  have inner: "bind_result (Some (py_items (PyDict d))) (\<lambda>items.
            comprehension (\<lambda>(key, v).
              bind_result (Some (to_instance_pv (PyDict d) key)) (\<lambda>n.
              bind_result (value_to_pvproperty_kwargs rt key v) (\<lambda>vk.
              returns (make_field n vk)))) items) = returns (map (one d) d)"
    if d: "d \<in> set ds" for d
  proof -
    have "comprehension (\<lambda>kv.
              bind_result (Some (to_instance_pv (PyDict d) (fst kv))) (\<lambda>n.
              bind_result (value_to_pvproperty_kwargs rt (fst kv) (snd kv)) (\<lambda>vk.
              returns (make_field n vk)))) d = returns (map (one d) d)"
      by (rule comprehension_returns) (use elem[OF d] in blast)
    then show ?thesis by (simp add: case_prod_unfold)
  qed
  have outer: "instance_metrics_to_pvproperties rt (PyList (map PyDict ds))
                 = returns (concat (map (\<lambda>d. map (one d) d) ds))"
  proof -
    have "comprehension (\<lambda>instance_dict.
          bind_result (Some (py_items instance_dict)) (\<lambda>items.
            comprehension (\<lambda>(key, v).
              bind_result (Some (to_instance_pv instance_dict key)) (\<lambda>n.
              bind_result (value_to_pvproperty_kwargs rt key v) (\<lambda>vk.
              returns (make_field n vk)))) items)) (map PyDict ds)
          = returns (map (\<lambda>x. case x of PyDict d \<Rightarrow> map (one d) d | _ \<Rightarrow> []) (map PyDict ds))"
      by (rule comprehension_returns) (use inner in auto)
    then show ?thesis
      by (simp add: instance_metrics_to_pvproperties_def comp_def)
  qed
  let ?flds = "concat (map (\<lambda>d. map (one d) d) ds)"
  have names: "map name ?flds
      = concat (map (\<lambda>d. map (\<lambda>kv. inst_of d @ '':'' @ key_to_pv (fst kv)) d) ds)"
    using elem by (simp add: map_concat comp_def cong: map_cong)
  have docs: "map (\<lambda>fld. map_option doc (kwargs fld)) ?flds
      = concat (map (\<lambda>d. map (\<lambda>kv. Some (fst kv)) d) ds)"
  proof -
    have row: "map (\<lambda>kv. map_option doc (kwargs (one d kv))) d = map (\<lambda>kv. Some (fst kv)) d"
      if "d \<in> set ds" for d
      by (rule map_cong[OF refl]) (use elem[OF that] in blast)
    have "map (\<lambda>d. map (\<lambda>kv. map_option doc (kwargs (one d kv))) d) ds
        = map (\<lambda>d. map (\<lambda>kv. Some (fst kv)) d) ds"
      by (rule map_cong[OF refl]) (rule row)
    then have "concat (map (\<lambda>d. map (\<lambda>kv. map_option doc (kwargs (one d kv))) d) ds)
        = concat (map (\<lambda>d. map (\<lambda>kv. Some (fst kv)) d) ds)"
      by (rule arg_cong)
    then show ?thesis
      unfolding map_concat map_map comp_def .
  qed
  have disc: "inst_of d @ '':'' @ key_to_pv ''instance'' \<in> set (map name ?flds)"
    if d: "d \<in> set ds" for d
  proof -
    from inst d have "map_of d ''instance'' = Some (PyStr (inst_of d))" by blast
    then have "(''instance'', PyStr (inst_of d)) \<in> set d" by (rule map_of_SomeD)
    with d show ?thesis unfolding names by force
  qed
  from outer names docs disc show ?thesis by blast
qed

theorem instance_metrics_fields_witness:
  "\<exists>flds. instance_metrics_to_pvproperties sample_runtime
             (PyList [PyDict [(''instance'', PyStr ''appliance0''), (''status'', PyStr ''ok''),
                              (''pvCount'', PyStr ''7'')]]) = returns flds
         \<and> map name flds = [''appliance0:Instance'', ''appliance0:Status'', ''appliance0:Pvcount'']
         \<and> map (\<lambda>fld. map_option doc (kwargs fld)) flds
             = [Some ''instance'', Some ''status'', Some ''pvCount'']
         \<and> ''appliance0:Instance'' \<in> set (map name flds)"
proof -
  define d :: "(string \<times> rat pyval) list" where
    "d = [(''instance'', PyStr ''appliance0''), (''status'', PyStr ''ok''),
          (''pvCount'', PyStr ''7'')]"
  have keys: "key_to_pv ''instance'' = ''Instance''" "key_to_pv ''status'' = ''Status''"
    "key_to_pv ''pvCount'' = ''Pvcount''"
    by code_simp+
  have inst: "\<forall>x \<in> set [d]. map_of x ''instance'' = Some (PyStr ((\<lambda>_. ''appliance0'') x))"
    by (simp add: d_def)
  have c1: "archiver_literal_eval sample_runtime (PyStr ''appliance0'') = Inr (PyStr ''appliance0'')"
    and c2: "archiver_literal_eval sample_runtime (PyStr ''ok'') = Inr (PyStr ''ok'')"
    and c3: "archiver_literal_eval sample_runtime (PyStr ''7'') = Inr (PyInt 7)"
    by (simp_all only: archiver_literal_eval_sample)
       (simp_all add: sample_runtime_def sample_literals_def)
  have vals: "\<forall>x \<in> set [d]. \<forall>kv \<in> set x.
                 \<exists>c. archiver_literal_eval sample_runtime (snd kv) = Inr c
                     \<and> type_of c \<in> {TBool, TInt, TFloat, TStr}"
    by (simp add: d_def c1 c2 c3)
  show ?thesis
    using instance_metrics_fields[OF inst vals]
    by (simp add: d_def keys)
qed

text \<open>
  C6 as stated fails: the object's \<^verbatim>\<open>instance\<close> key gets a field of its own.
\<close>

theorem instance_metrics_emits_instance_key:
  "instance_metrics_to_pvproperties sample_runtime
     (PyList [PyDict [(''instance'', PyStr ''appliance0''), (''status'', PyStr ''ok'')]])
     = returns
         [\<lparr>name = ''appliance0:Instance'', val = PyStr ''appliance0'',
           kwargs = Some \<lparr>doc = ''instance'', record_type = ''stringin'',
                           report_as_string = Some True, max_length = Some 2000\<rparr>\<rparr>,
          \<lparr>name = ''appliance0:Status'', val = PyStr ''ok'',
           kwargs = Some \<lparr>doc = ''status'', record_type = ''stringin'',
                           report_as_string = Some True, max_length = Some 2000\<rparr>\<rparr>]"
  by code_simp

section \<open>The tick of a group\<close>

lemma tick_step_refl: "tick_step gc gc"
  by (simp add: tick_step_def)

lemma tick_step_trans: "tick_step a b \<Longrightarrow> tick_step b c \<Longrightarrow> tick_step a c"
  by (auto simp: tick_step_def)

lemma update_item_step: "tick_step gc (fst (update_item h item gc))"
  by (auto simp: update_item_def tick_step_def stores_def writes_def Let_def
      split: option.splits sum.splits bool.splits)

lemma update_items_step: "tick_step gc (fst (update_items h items gc))"
proof (induction items arbitrary: gc)
  case Nil
  show ?case by (simp add: tick_step_refl)
next
  case (Cons item items)
  obtain gc1 r where one: "update_item h item gc = (gc1, r)" by (cases "update_item h item gc")
  have first: "tick_step gc gc1" using update_item_step[of gc h item] one by simp
  show ?case
  proof (cases r)
    case None
    with one Cons[of gc1] first show ?thesis by (auto intro: tick_step_trans)
  next
    case (Some e)
    with one first show ?thesis by simp
  qed
qed

lemma update_requests_step: "tick_step gc (fst (update_requests h reqs gc))"
proof (induction reqs arbitrary: gc)
  case Nil
  show ?case by (simp add: tick_step_refl)
next
  case (Cons request rest)
  show ?case
  proof (cases "request_make h request")
    case (Inl e)
    then show ?thesis by (simp add: tick_step_refl)
  next
    case (Inr items)
    obtain gc1 r where its: "update_items h items gc = (gc1, r)"
      by (cases "update_items h items gc")
    have first: "tick_step gc gc1" using update_items_step[of gc h items] its by simp
    show ?thesis
    proof (cases r)
      case None
      with Inr its Cons[of gc1] first show ?thesis by (auto intro: tick_step_trans)
    next
      case (Some e)
      with Inr its first show ?thesis by simp
    qed
  qed
qed

text \<open>
  C3.  When a group's tick completes, it has stored one more snapshot, and its document
  count is one higher, exactly if it wrote an attribute during the tick or its document
  count was zero and it had no initial document; otherwise both are as before.
\<close>

theorem update_group_persists:
  assumes "snd (update_group h g) = None"
  shows "if writes g < writes (fst (update_group h g))
            \<or> (document_count g = 0 \<and> init_document g = None)
         then stores (fst (update_group h g)) = stores g + 1
              \<and> document_count (fst (update_group h g)) = document_count g + 1
         else stores (fst (update_group h g)) = stores g
              \<and> document_count (fst (update_group h g)) = document_count g"
proof -
  obtain g1 changed r where run: "update_requests h (requests g) (g, False) = ((g1, changed), r)"
    by (cases "update_requests h (requests g) (g, False)") auto
  have step: "tick_step (g, False) (g1, changed)"
    using update_requests_step[of "(g, False)" h "requests g"] run by simp
  from assms run have r: "r = None"
    by (cases r) (simp_all add: update_group_def)
  have ug: "update_group h g =
      (if changed \<or> (document_count g1 = 0 \<and> init_document g1 = None)
       then (case db_store h (attrs g1) of
               Some e \<Rightarrow> (g1, Some e)
             | None \<Rightarrow>
                 (g1\<lparr>trace := trace g1 @ [Stored],
                     document_count := document_count g1 + 1\<rparr>, None))
       else (g1, None))"
    using run r by (simp add: update_group_def)
  show ?thesis
  proof (cases "changed \<or> (document_count g1 = 0 \<and> init_document g1 = None)")
    case False
    have "update_group h g = (g1, None)"
      using ug by (simp only: False if_False)
    with step False show ?thesis by (auto simp: tick_step_def)
  next
    case True
    have ug': "update_group h g =
        (case db_store h (attrs g1) of
               Some e \<Rightarrow> (g1, Some e)
             | None \<Rightarrow>
                 (g1\<lparr>trace := trace g1 @ [Stored],
                     document_count := document_count g1 + 1\<rparr>, None))"
      using ug by (simp only: True if_True)
    with assms have ok: "db_store h (attrs g1) = None"
      by (cases "db_store h (attrs g1)") auto
    with ug' have "update_group h g =
        (g1\<lparr>trace := trace g1 @ [Stored], document_count := document_count g1 + 1\<rparr>, None)"
      by simp
    with step True show ?thesis by (auto simp: tick_step_def stores_def writes_def)
  qed
qed

lemma sample_tick_unchanged:
  "update_group sample_host (sample_group [''metrics''] (PyInt 7) init) =
     (if init = None
      then (sample_group [''metrics''] (PyInt 7) init)\<lparr>trace := [Stored], document_count := 1\<rparr>
      else sample_group [''metrics''] (PyInt 7) init, None)"
  by (simp add: update_group_def update_item_def sample_host_def sample_group_def)

lemma sample_tick_changed:
  "snd (update_group sample_host (sample_group [''metrics''] (PyInt 3) (Some PyNone))) = None
   \<and> trace (fst (update_group sample_host (sample_group [''metrics''] (PyInt 3) (Some PyNone))))
       = [Wrote ''pv_count'' (PyInt 7), Stored]"
  by (simp add: update_group_def update_item_def sample_host_def sample_group_def)

theorem update_group_persists_witness:
  "stores (fst (update_group sample_host (sample_group [''metrics''] (PyInt 7) None))) = 1
   \<and> document_count (fst (update_group sample_host (sample_group [''metrics''] (PyInt 7) None))) = 1
   \<and> stores (fst (update_group sample_host
                    (sample_group [''metrics''] (PyInt 7) (Some PyNone)))) = 0
   \<and> stores (fst (update_group sample_host
                    (sample_group [''metrics''] (PyInt 3) (Some PyNone)))) = 1"
proof -
  have a: "snd (update_group sample_host (sample_group [''metrics''] (PyInt 7) None)) = None"
    and b: "snd (update_group sample_host
                   (sample_group [''metrics''] (PyInt 7) (Some PyNone))) = None"
    by (simp_all add: sample_tick_unchanged)
  have c: "snd (update_group sample_host
                   (sample_group [''metrics''] (PyInt 3) (Some PyNone))) = None"
    using sample_tick_changed by simp
  have fa: "fst (update_group sample_host (sample_group [''metrics''] (PyInt 7) None))
      = (sample_group [''metrics''] (PyInt 7) None)\<lparr>trace := [Stored], document_count := 1\<rparr>"
    and fb: "fst (update_group sample_host (sample_group [''metrics''] (PyInt 7) (Some PyNone)))
      = sample_group [''metrics''] (PyInt 7) (Some PyNone)"
    by (simp_all add: sample_tick_unchanged)
  have wc: "writes (sample_group [''metrics''] (PyInt 3) (Some PyNone))
      < writes (fst (update_group sample_host
                       (sample_group [''metrics''] (PyInt 3) (Some PyNone))))"
    and sc: "stores (sample_group [''metrics''] (PyInt 3) (Some PyNone)) = 0"
    using sample_tick_changed by (simp_all add: writes_def stores_def sample_group_def)
  have "stores (fst (update_group sample_host
                    (sample_group [''metrics''] (PyInt 3) (Some PyNone)))) = 1"
    using update_group_persists[OF c] wc sc by simp
  moreover have "stores (fst (update_group sample_host (sample_group [''metrics''] (PyInt 7) None))) = 1
   \<and> document_count (fst (update_group sample_host (sample_group [''metrics''] (PyInt 7) None))) = 1
   \<and> stores (fst (update_group sample_host
                    (sample_group [''metrics''] (PyInt 7) (Some PyNone)))) = 0"
    using update_group_persists[OF a] update_group_persists[OF b]
    unfolding fa fb
    by (simp add: stores_def writes_def sample_group_def)
  ultimately show ?thesis by simp
qed

text \<open>
  The document count never falls, and a group without an initial document has a
  positive count after any completed tick: for such a group a count of zero means
  that no tick has completed yet.
\<close>

lemma update_group_document_count:
  "document_count g \<le> document_count (fst (update_group h g))"
  "snd (update_group h g) = None \<Longrightarrow> init_document g = None \<Longrightarrow>
     0 < document_count (fst (update_group h g))"
  using update_requests_step[of "(g, False)" h "requests g"]
  by (auto simp: update_group_def tick_step_def Let_def
      split: prod.splits option.splits if_splits)

section \<open>Unknown fields\<close>

lemma update_items_append:
  assumes "update_items h xs gc = (gc1, None)"
  shows "update_items h (xs @ ys) gc = update_items h ys gc1"
  using assms
proof (induction xs arbitrary: gc)
  case Nil
  then show ?case by simp
next
  case (Cons x xs)
  obtain gc2 r where one: "update_item h x gc = (gc2, r)" by (cases "update_item h x gc")
  with Cons.prems have r: "r = None" by (cases r) simp_all
  with one Cons.prems have "update_items h xs gc2 = (gc1, None)" by simp
  from Cons.IH[OF this] one r show ?case by simp
qed

text \<open>
  C4.  In a batch, a field whose name is not in the group's map is logged and passed
  over: the attributes, the map and the flag are left as they were, nothing is raised,
  and the fields after it are processed from the state so reached.  No batch changes
  the map or the set of attributes.
\<close>

theorem unknown_field_skipped:
  assumes "snd (update_items h before (g, c)) = None"
    and "key_to_attr_map g (name item) = None"
  shows "update_items h (before @ item # rest) (g, c) =
           update_items h rest
             ((fst (fst (update_items h before (g, c))))
                \<lparr>trace := trace (fst (fst (update_items h before (g, c)))) @ [SawNewEntry item]\<rparr>,
              snd (fst (update_items h before (g, c))))
       \<and> key_to_attr_map (fst (fst (update_items h (before @ item # rest) (g, c))))
           = key_to_attr_map g
       \<and> dom (attrs (fst (fst (update_items h (before @ item # rest) (g, c))))) = dom (attrs g)"
proof (intro conjI)
  obtain g1 c1 where run: "update_items h before (g, c) = ((g1, c1), None)"
    using assms(1) by (cases "update_items h before (g, c)") auto
  have "tick_step (g, c) (g1, c1)"
    using update_items_step[of "(g, c)" h before] run by simp
  then have "key_to_attr_map g1 (name item) = None"
    using assms(2) by (simp add: tick_step_def)
  then have skip: "update_item h item (g1, c1)
      = ((g1\<lparr>trace := trace g1 @ [SawNewEntry item]\<rparr>, c1), None)"
    by (simp add: update_item_def)
  show "update_items h (before @ item # rest) (g, c) =
           update_items h rest
             ((fst (fst (update_items h before (g, c))))
                \<lparr>trace := trace (fst (fst (update_items h before (g, c)))) @ [SawNewEntry item]\<rparr>,
              snd (fst (update_items h before (g, c))))"
    using update_items_append[OF run, of "item # rest"] skip run by simp
next
  have "tick_step (g, c) (fst (update_items h (before @ item # rest) (g, c)))"
    by (rule update_items_step)
  then show "key_to_attr_map (fst (fst (update_items h (before @ item # rest) (g, c))))
           = key_to_attr_map g"
    and "dom (attrs (fst (fst (update_items h (before @ item # rest) (g, c))))) = dom (attrs g)"
    by (simp_all add: tick_step_def)
qed

theorem unknown_field_skipped_witness:
  "trace (fst (fst (update_items sample_host
       [\<lparr>name = ''Unseen'', val = PyInt 1, kwargs = None\<rparr>,
        \<lparr>name = ''PvCount'', val = PyInt 7, kwargs = None\<rparr>]
       (sample_group [''extra''] (PyInt 3) None, False))))
     = [SawNewEntry \<lparr>name = ''Unseen'', val = PyInt 1, kwargs = None\<rparr>,
        Wrote ''pv_count'' (PyInt 7)]
   \<and> dom (attrs (fst (fst (update_items sample_host
       [\<lparr>name = ''Unseen'', val = PyInt 1, kwargs = None\<rparr>,
        \<lparr>name = ''PvCount'', val = PyInt 7, kwargs = None\<rparr>]
       (sample_group [''extra''] (PyInt 3) None, False))))) = {''pv_count''}"
proof -
  have a: "snd (update_items sample_host [] (sample_group [''extra''] (PyInt 3) None, False)) = None"
    by simp
  have b: "key_to_attr_map (sample_group [''extra''] (PyInt 3) None)
             (name \<lparr>name = ''Unseen'', val = PyInt 1 :: rat pyval, kwargs = None\<rparr>) = None"
    by (simp add: sample_group_def)
  show ?thesis
    using unknown_field_skipped[OF a b, of "[\<lparr>name = ''PvCount'', val = PyInt 7, kwargs = None\<rparr>]"]
    by (simp add: update_item_def sample_host_def sample_group_def)
qed

section \<open>The update loop\<close>

lemma update_groups_log:
  "snd (update_groups h gs evs) = None \<Longrightarrow>
   snd (fst (update_groups h gs evs)) = evs @ replicate (length gs) (Sleep (1 / 10))"
proof (induction gs arbitrary: evs)
  case Nil
  then show ?case by simp
next
  case (Cons g gs)
  obtain g' r where one: "update_group h g = (g', r)" by (cases "update_group h g")
  with Cons.prems have r: "r = None" by (cases r) simp_all
  obtain gs' evs' r' where rest: "update_groups h gs (evs @ [Sleep (1 / 10)]) = ((gs', evs'), r')"
    by (cases "update_groups h gs (evs @ [Sleep (1 / 10)])") auto
  with Cons.prems one r have "r' = None" by simp
  with Cons.IH[of "evs @ [Sleep (1 / 10)]"] rest
  have "evs' = (evs @ [Sleep (1 / 10)]) @ replicate (length gs) (Sleep (1 / 10))" by simp
  with one r rest show ?case by (simp add: replicate_app_Cons_same)
qed

lemma update_groups_append:
  assumes "snd (update_groups h pre evs) = None"
  shows "update_groups h (pre @ rest) evs =
           (case update_groups h rest (snd (fst (update_groups h pre evs))) of
              ((rest', evs'), r) \<Rightarrow> ((fst (fst (update_groups h pre evs)) @ rest', evs'), r))"
  using assms
proof (induction pre arbitrary: evs)
  case Nil
  then show ?case by (simp split: prod.splits)
next
  case (Cons g gs)
  obtain g' r where one: "update_group h g = (g', r)" by (cases "update_group h g")
  with Cons.prems have r: "r = None" by (cases r) simp_all
  obtain gs' evs' r' where tl: "update_groups h gs (evs @ [Sleep (1 / 10)]) = ((gs', evs'), r')"
    by (cases "update_groups h gs (evs @ [Sleep (1 / 10)])") auto
  with Cons.prems one r have r': "snd (update_groups h gs (evs @ [Sleep (1 / 10)])) = None"
    by simp
  from Cons.IH[OF r'] one r tl show ?case
    by (simp split: prod.splits)
qed

text \<open>
  C5 (as the code has it).  When the groups in front of \<open>g\<close> update without an
  exception and the update of \<open>g\<close> raises \<open>e\<close>, the pass stops its sweep there: the
  groups behind \<open>g\<close> are left as they were, the exception is caught and logged, the
  loop sleeps ten seconds and then the regular interval, and goes on with the next
  pass.  Every pass, failed or not, ends in the regular sleep.
\<close>

theorem updater_pass_failure:
  assumes "snd (update_groups h pre evs) = None"
    and "snd (update_group h g) = Some e"
  shows "updater_pass h (pre @ g # post, evs) =
           (fst (fst (update_groups h pre evs)) @ fst (update_group h g) # post,
            evs @ replicate (length pre) (Sleep (1 / 10))
                @ [UpdateFailed e, Sleep 10, Sleep update_rate])
       \<and> updater (h # hs) (pre @ g # post, evs) =
           updater hs
             (fst (fst (update_groups h pre evs)) @ fst (update_group h g) # post,
              evs @ replicate (length pre) (Sleep (1 / 10))
                  @ [UpdateFailed e, Sleep 10, Sleep update_rate])
       \<and> last (snd (updater_pass h st)) = Sleep update_rate"
proof (intro conjI)
  obtain g' where one: "update_group h g = (g', Some e)"
    using assms(2) by (cases "update_group h g") auto
  have lg: "snd (fst (update_groups h pre evs)) = evs @ replicate (length pre) (Sleep (1 / 10))"
    using assms(1) by (rule update_groups_log)
  have "update_groups h (pre @ g # post) evs =
          ((fst (fst (update_groups h pre evs)) @ g' # post,
            evs @ replicate (length pre) (Sleep (1 / 10))), Some e)"
    using update_groups_append[OF assms(1), of "g # post"] one lg by simp
  then show pass: "updater_pass h (pre @ g # post, evs) =
           (fst (fst (update_groups h pre evs)) @ fst (update_group h g) # post,
            evs @ replicate (length pre) (Sleep (1 / 10))
                @ [UpdateFailed e, Sleep 10, Sleep update_rate])"
    using one by (simp add: updater_pass_def)
  then show "updater (h # hs) (pre @ g # post, evs) =
           updater hs
             (fst (fst (update_groups h pre evs)) @ fst (update_group h g) # post,
              evs @ replicate (length pre) (Sleep (1 / 10))
                  @ [UpdateFailed e, Sleep 10, Sleep update_rate])"
    by simp
next
  show "last (snd (updater_pass h st)) = Sleep update_rate"
    by (simp add: updater_pass_def split: prod.splits option.splits)
qed

lemma sample_tick_down:
  "update_group sample_host (sample_group [''down''] v None)
     = (sample_group [''down''] v None, Some ConnectionError)"
  by (simp add: update_group_def sample_host_def sample_group_def)

lemma sample_sweep_first:
  "snd (update_groups sample_host [sample_group [''metrics''] (PyInt 3) None] []) = None
   \<and> map trace (fst (fst (update_groups sample_host
                               [sample_group [''metrics''] (PyInt 3) None] [])))
       = [[Wrote ''pv_count'' (PyInt 7), Stored]]"
  by (simp add: update_group_def update_item_def sample_host_def sample_group_def)

theorem updater_pass_failure_witness:
  "snd (updater_pass sample_host
          ([sample_group [''metrics''] (PyInt 3) None, sample_group [''down''] (PyInt 3) None,
            sample_group [''metrics''] (PyInt 3) None], []))
     = [Sleep (1 / 10), UpdateFailed ConnectionError, Sleep 10, Sleep 60]
   \<and> map trace (fst (updater_pass sample_host
          ([sample_group [''metrics''] (PyInt 3) None, sample_group [''down''] (PyInt 3) None,
            sample_group [''metrics''] (PyInt 3) None], [])))
     = [[Wrote ''pv_count'' (PyInt 7), Stored], [], []]"
proof -
  have a: "snd (update_groups sample_host [sample_group [''metrics''] (PyInt 3) None] []) = None"
    using sample_sweep_first by simp
  have b: "snd (update_group sample_host (sample_group [''down''] (PyInt 3) None))
             = Some ConnectionError"
    by (simp add: sample_tick_down)
  have "updater_pass sample_host
          ([sample_group [''metrics''] (PyInt 3) None] @ sample_group [''down''] (PyInt 3) None
             # [sample_group [''metrics''] (PyInt 3) None], [])
        = (fst (fst (update_groups sample_host [sample_group [''metrics''] (PyInt 3) None] []))
             @ sample_group [''down''] (PyInt 3) None # [sample_group [''metrics''] (PyInt 3) None],
           [Sleep (1 / 10), UpdateFailed ConnectionError, Sleep 10, Sleep 60])"
    using updater_pass_failure[OF a b, of "[sample_group [''metrics''] (PyInt 3) None]" "[]"
            "([], [])"]
    by (simp add: sample_tick_down update_rate_def)
  then have "updater_pass sample_host
          ([sample_group [''metrics''] (PyInt 3) None, sample_group [''down''] (PyInt 3) None,
            sample_group [''metrics''] (PyInt 3) None], [])
        = (fst (fst (update_groups sample_host [sample_group [''metrics''] (PyInt 3) None] []))
             @ [sample_group [''down''] (PyInt 3) None, sample_group [''metrics''] (PyInt 3) None],
           [Sleep (1 / 10), UpdateFailed ConnectionError, Sleep 10, Sleep 60])"
    by simp
  then show ?thesis
    using sample_sweep_first by (simp add: sample_group_def)
qed

text \<open>
  C5 as stated fails.  With the first group's fetch failing, the second group of the
  same sweep is not processed: it keeps its empty trace, although a tick of its own
  would write the new value and store a snapshot.
\<close>

theorem updater_pass_skips_later_groups:
  "map trace (fst (updater_pass sample_host
          ([sample_group [''down''] (PyInt 3) None,
            sample_group [''metrics''] (PyInt 3) (Some PyNone)], [])))
     = [[], []]
   \<and> trace (fst (update_group sample_host (sample_group [''metrics''] (PyInt 3) (Some PyNone))))
       = [Wrote ''pv_count'' (PyInt 7), Stored]"
  by (simp add: updater_pass_def update_group_def update_item_def sample_host_def
      sample_group_def)

end
